theory Spec2Isabelle
  imports Main
begin

section \<open>Python values and string primitives\<close>

text \<open>
  The driver is Python. Responses of the array are parsed JSON; the code reads them with
  \<^verbatim>\<open>.get\<close>, truthiness tests, \<^verbatim>\<open>is None\<close> and f-string formatting. A field
  of a record is a scalar here (the array's records are flat: identifiers, names, numbers);
  a response is a scalar, a record or a list of responses.
\<close>

datatype scalar = PNone | PBool bool | PInt int | PStr string

datatype pyval = Scalar scalar | Dict "(string \<times> scalar) list" | PList "pyval list"

datatype exn =
    QSANApiException string
  | VolumeBackendAPIException string
  | AttributeError
  | KeyError
  | TypeError
  | IndexError
  | ValueError

text \<open>Truthiness (\<^verbatim>\<open>if x:\<close>) of scalars and of responses.\<close>

fun truthy_scalar :: "scalar \<Rightarrow> bool" where
  "truthy_scalar PNone = False"
| "truthy_scalar (PBool b) = b"
| "truthy_scalar (PInt i) = (i \<noteq> 0)"
| "truthy_scalar (PStr s) = (s \<noteq> [])"

fun truthy :: "pyval \<Rightarrow> bool" where
  "truthy (Scalar v) = truthy_scalar v"
| "truthy (Dict d) = (d \<noteq> [])"
| "truthy (PList xs) = (xs \<noteq> [])"

text \<open>Truthiness of an optional string (\<^verbatim>\<open>None\<close> and \<^verbatim>\<open>''\<close> are false).\<close>

fun truthy_str :: "string option \<Rightarrow> bool" where
  "truthy_str None = False"
| "truthy_str (Some s) = (s \<noteq> [])"

text \<open>\<^verbatim>\<open>str(n)\<close> for integers: decimal digits, a minus sign for negatives.\<close>

definition digit_char :: "nat \<Rightarrow> char" where
  "digit_char d = char_of (48 + d)"

fun str_nat :: "nat \<Rightarrow> string" where
  "str_nat n = (if n < 10 then [digit_char n] else str_nat (n div 10) @ [digit_char (n mod 10)])"

declare str_nat.simps [simp del]

definition str_int :: "int \<Rightarrow> string" where
  "str_int i = (if i < 0 then CHR ''-'' # str_nat (nat (- i)) else str_nat (nat i))"

text \<open>What an f-string writes for a scalar (\<^verbatim>\<open>format(v, '')\<close>, that is \<^verbatim>\<open>str(v)\<close>).\<close>

fun py_str :: "scalar \<Rightarrow> string" where
  "py_str PNone = ''None''"
| "py_str (PBool b) = (if b then ''True'' else ''False'')"
| "py_str (PInt i) = str_int i"
| "py_str (PStr s) = s"

text \<open>\<^verbatim>\<open>s.split(c)\<close> for a one-character separator: empty fields are kept, and the
  result is never empty (\<^verbatim>\<open>''.split(' ') == ['']\<close>).\<close>

fun py_split :: "char \<Rightarrow> string \<Rightarrow> string list" where
  "py_split c [] = [[]]"
| "py_split c (x # xs) =
     (if x = c then [] # py_split c xs
      else (case py_split c xs of
              [] \<Rightarrow> [[x]]
            | w # ws \<Rightarrow> (x # w) # ws))"

text \<open>\<^verbatim>\<open>sep.join(xs)\<close>.\<close>

fun py_join :: "string \<Rightarrow> string list \<Rightarrow> string" where
  "py_join sep [] = []"
| "py_join sep [x] = x"
| "py_join sep (x # y # ys) = x @ sep @ py_join sep (y # ys)"

text \<open>
  \<^verbatim>\<open>int(s)\<close> on a string, base ten: surrounding whitespace is stripped, one sign is
  allowed, and single underscores may separate digits. \<open>None\<close> stands for
  \<^verbatim>\<open>ValueError\<close>. Characters are bytes here, so only ASCII digits and ASCII
  whitespace are recognised.
\<close>

definition is_digit :: "char \<Rightarrow> bool" where
  "is_digit c = (let n = (of_char c :: nat) in 48 \<le> n \<and> n \<le> 57)"

definition digit_val :: "char \<Rightarrow> nat" where
  "digit_val c = (of_char c :: nat) - 48"

definition is_space :: "char \<Rightarrow> bool" where
  "is_space c = (let n = (of_char c :: nat) in (9 \<le> n \<and> n \<le> 13) \<or> (28 \<le> n \<and> n \<le> 32))"

definition py_strip :: "string \<Rightarrow> string" where
  "py_strip s = rev (dropWhile is_space (rev (dropWhile is_space s)))"

fun int_body :: "nat \<Rightarrow> bool \<Rightarrow> string \<Rightarrow> nat option" where
  "int_body acc prev [] = (if prev then Some acc else None)"
| "int_body acc prev (c # cs) =
     (if is_digit c then int_body (10 * acc + digit_val c) True cs
      else if c = CHR ''_'' \<and> prev then int_body acc False cs
      else None)"

definition py_int :: "string \<Rightarrow> int option" where
  "py_int s =
     (case py_strip s of
        [] \<Rightarrow> None
      | c # cs \<Rightarrow>
          if c = CHR ''-'' then map_option (\<lambda>n. - int n) (int_body 0 False cs)
          else if c = CHR ''+'' then map_option int (int_body 0 False cs)
          else map_option int (int_body 0 False (c # cs)))"

section \<open>The HTTP transport\<close>

text \<open>
  One call of \<^verbatim>\<open>session.request\<close> sends a request and either gets a response (a
  status, a reason phrase, a body that is empty or parsed JSON) or raises a connection-level
  \<^verbatim>\<open>RequestException\<close> (connection refused, timeout). The array is any function
  from the number of requests sent so far and the request to such a reply. What the client
  does to the outside world is recorded as a trace of events: \<open>Sent r\<close> is one call of
  \<^verbatim>\<open>session.request\<close> (one attempt), \<open>Slept n\<close> is \<^verbatim>\<open>time.sleep(n)\<close>.
\<close>

record request =
  req_method :: string
  req_url :: string
  req_json :: "(string \<times> scalar) list option"
  req_params :: "(string \<times> scalar) list option"
  req_headers :: "(string \<times> string) list"
  req_timeout :: int

datatype reply = Response nat string "pyval option" | ConnectionError string

datatype event = Sent request | Slept nat

type_synonym transport = "nat \<Rightarrow> request \<Rightarrow> reply"

fun is_sent :: "event \<Rightarrow> bool" where
  "is_sent (Sent r) = True"
| "is_sent (Slept n) = False"

definition count_sent :: "event list \<Rightarrow> nat" where
  "count_sent tr = length (filter is_sent tr)"

definition count_slept :: "event list \<Rightarrow> nat" where
  "count_slept tr = length (filter (\<lambda>e. \<not> is_sent e) tr)"

text \<open>The exceptions below \<^verbatim>\<open>requests.exceptions.RequestException\<close> that an attempt
  can raise: from \<^verbatim>\<open>session.request\<close> itself, or from \<^verbatim>\<open>raise_for_status\<close>
  on a 4xx/5xx status.\<close>

datatype request_exception = ConnectionFailure string | HTTPError nat string

fun str_request_exception :: "request_exception \<Rightarrow> string" where
  "str_request_exception (ConnectionFailure m) = m"
| "str_request_exception (HTTPError st m) = m"

text \<open>\<^verbatim>\<open>response.raise_for_status()\<close>, as the requests library defines it.\<close>

definition raise_for_status :: "nat \<Rightarrow> string \<Rightarrow> string \<Rightarrow> request_exception option" where
  "raise_for_status st reason u =
     (if 400 \<le> st \<and> st < 500
        then Some (HTTPError st (str_nat st @ '' Client Error: '' @ reason @ '' for url: '' @ u))
      else if 500 \<le> st \<and> st < 600
        then Some (HTTPError st (str_nat st @ '' Server Error: '' @ reason @ '' for url: '' @ u))
      else None)"

text \<open>The body of the \<^verbatim>\<open>try\<close> in \<^verbatim>\<open>_request\<close>: the value returned, or the
  \<^verbatim>\<open>RequestException\<close> raised.\<close>

definition attempt_outcome :: "reply \<Rightarrow> string \<Rightarrow> request_exception + pyval" where
  "attempt_outcome r u =
     (case r of
        ConnectionError m \<Rightarrow> Inl (ConnectionFailure m)
      | Response st reason content \<Rightarrow>
          (case raise_for_status st reason u of
             Some e \<Rightarrow> Inl e
           | None \<Rightarrow> Inr (case content of None \<Rightarrow> Scalar PNone | Some v \<Rightarrow> v)))"

section \<open>QSANClient\<close>

record client =
  host :: string
  port :: int
  protocol :: string
  username :: string
  password :: string
  ssl_verify :: bool
  timeout :: int
  retry_count :: int

definition base_url :: "client \<Rightarrow> string" where
  "base_url c = protocol c @ ''://'' @ host c @ '':'' @ str_int (port c) @ ''/api''"

text \<open>The mutable part: the session handle (present or \<^verbatim>\<open>None\<close>; a handle carries
  its \<^verbatim>\<open>verify\<close> flag), the token, and the trace of what has been sent and slept.\<close>

record state =
  session :: "bool option"
  session_token :: scalar
  trace :: "event list"

text \<open>
  The loop of \<^verbatim>\<open>_request\<close>: \<^verbatim>\<open>for attempt in range(self.retry_count)\<close>. The
  fourth argument is the loop index, the fifth the number of iterations left. A loop that
  runs out falls off the end of the function, which returns \<^verbatim>\<open>None\<close>.
\<close>

fun request_attempts ::
  "transport \<Rightarrow> bool option \<Rightarrow> request \<Rightarrow> int \<Rightarrow> nat \<Rightarrow> nat \<Rightarrow> event list
     \<Rightarrow> (exn + pyval) \<times> event list" where
  "request_attempts srv sess req rc attempt 0 tr = (Inr (Scalar PNone), tr)"
| "request_attempts srv sess req rc attempt (Suc k) tr =
     (case sess of
        None \<Rightarrow> (Inl AttributeError, tr)
      | Some verify \<Rightarrow>
          (case attempt_outcome (srv (count_sent tr) req) (req_url req) of
             Inr v \<Rightarrow> (Inr v, tr @ [Sent req])
           | Inl e \<Rightarrow>
               if int attempt < rc - 1
               then request_attempts srv sess req rc (Suc attempt) k (tr @ [Sent req, Slept 1])
               else (Inl (QSANApiException (''QSAN API request failed: '' @ str_request_exception e)),
                     tr @ [Sent req])))"

definition build_request ::
  "client \<Rightarrow> state \<Rightarrow> string \<Rightarrow> string \<Rightarrow> (string \<times> scalar) list option
     \<Rightarrow> (string \<times> scalar) list option \<Rightarrow> request" where
  "build_request c s m u data ps =
     \<lparr> req_method = m, req_url = u, req_json = data, req_params = ps,
       req_headers =
         (''Content-Type'', ''application/json'') #
         (if truthy_scalar (session_token s)
          then [(''Authorization'', ''Bearer '' @ py_str (session_token s))] else []),
       req_timeout = timeout c \<rparr>"

definition client_request ::
  "transport \<Rightarrow> client \<Rightarrow> state \<Rightarrow> string \<Rightarrow> string \<Rightarrow> (string \<times> scalar) list option
     \<Rightarrow> (string \<times> scalar) list option \<Rightarrow> (exn + pyval) \<times> state" where
  "client_request srv c s m u data ps =
     (case request_attempts srv (session s) (build_request c s m u data ps)
             (retry_count c) 0 (nat (retry_count c)) (trace s) of
        (r, tr) \<Rightarrow> (r, s\<lparr>trace := tr\<rparr>))"

text \<open>\<^verbatim>\<open>logout\<close>: the \<^verbatim>\<open>except Exception\<close> swallows whatever the request
  raised, and the \<^verbatim>\<open>finally\<close> clears token and session.\<close>

definition client_logout :: "transport \<Rightarrow> client \<Rightarrow> state \<Rightarrow> (exn + unit) \<times> state" where
  "client_logout srv c s =
     (if session s = None \<or> session_token s = PNone then (Inr (), s)
      else (case client_request srv c s ''POST'' (base_url c @ ''/logout'') None None of
              (r, s1) \<Rightarrow> (Inr (), s1\<lparr>session_token := PNone, session := None\<rparr>)))"

text \<open>\<^verbatim>\<open>units.Gi\<close> of oslo.utils.\<close>

definition Gi :: int where
  "Gi = 1024 ^ 3"

definition client_create_volume ::
  "transport \<Rightarrow> client \<Rightarrow> state \<Rightarrow> scalar \<Rightarrow> string \<Rightarrow> int \<Rightarrow> bool \<Rightarrow> (exn + pyval) \<times> state" where
  "client_create_volume srv c s pool_name volume_name size_gb thin =
     client_request srv c s ''POST'' (base_url c @ ''/volumes'')
       (Some [(''pool'', pool_name), (''name'', PStr volume_name),
              (''size'', PInt (size_gb * Gi)), (''thin_provision'', PBool thin)])
       None"

definition client_delete_volume ::
  "transport \<Rightarrow> client \<Rightarrow> state \<Rightarrow> string \<Rightarrow> (exn + pyval) \<times> state" where
  "client_delete_volume srv c s volume_name =
     client_request srv c s ''DELETE'' (base_url c @ ''/volumes/'' @ volume_name) None None"

definition client_extend_volume ::
  "transport \<Rightarrow> client \<Rightarrow> state \<Rightarrow> string \<Rightarrow> int \<Rightarrow> (exn + pyval) \<times> state" where
  "client_extend_volume srv c s volume_name new_size_gb =
     client_request srv c s ''PUT'' (base_url c @ ''/volumes/'' @ volume_name)
       (Some [(''size'', PInt (new_size_gb * Gi))]) None"

text \<open>The get operations turn a \<^verbatim>\<open>QSANApiException\<close> into \<^verbatim>\<open>None\<close>; any other
  exception passes through.\<close>

definition swallow_api_error :: "(exn + pyval) \<times> state \<Rightarrow> (exn + pyval) \<times> state" where
  "swallow_api_error r =
     (case r of
        (Inl (QSANApiException m), s1) \<Rightarrow> (Inr (Scalar PNone), s1)
      | (Inl e, s1) \<Rightarrow> (Inl e, s1)
      | (Inr v, s1) \<Rightarrow> (Inr v, s1))"

definition client_get_volume ::
  "transport \<Rightarrow> client \<Rightarrow> state \<Rightarrow> string \<Rightarrow> (exn + pyval) \<times> state" where
  "client_get_volume srv c s volume_name =
     swallow_api_error
       (client_request srv c s ''GET'' (base_url c @ ''/volumes/'' @ volume_name) None None)"

definition client_delete_snapshot ::
  "transport \<Rightarrow> client \<Rightarrow> state \<Rightarrow> string \<Rightarrow> string \<Rightarrow> (exn + pyval) \<times> state" where
  "client_delete_snapshot srv c s volume_name snapshot_name =
     client_request srv c s ''DELETE''
       (base_url c @ ''/volumes/'' @ volume_name @ ''/snapshots/'' @ snapshot_name) None None"

definition client_get_snapshot ::
  "transport \<Rightarrow> client \<Rightarrow> state \<Rightarrow> string \<Rightarrow> string \<Rightarrow> (exn + pyval) \<times> state" where
  "client_get_snapshot srv c s volume_name snapshot_name =
     swallow_api_error
       (client_request srv c s ''GET''
          (base_url c @ ''/volumes/'' @ volume_name @ ''/snapshots/'' @ snapshot_name) None None)"

definition client_create_iscsi_target ::
  "transport \<Rightarrow> client \<Rightarrow> state \<Rightarrow> string \<Rightarrow> string option \<Rightarrow> (exn + pyval) \<times> state" where
  "client_create_iscsi_target srv c s target_name target_iqn =
     client_request srv c s ''POST'' (base_url c @ ''/iscsi/targets'')
       (Some ((''name'', PStr target_name) #
              (case target_iqn of
                 None \<Rightarrow> []
               | Some q \<Rightarrow> if q \<noteq> [] then [(''iqn'', PStr q)] else [])))
       None"

definition client_delete_iscsi_target ::
  "transport \<Rightarrow> client \<Rightarrow> state \<Rightarrow> scalar \<Rightarrow> (exn + pyval) \<times> state" where
  "client_delete_iscsi_target srv c s target_id =
     client_request srv c s ''DELETE'' (base_url c @ ''/iscsi/targets/'' @ py_str target_id)
       None None"

text \<open>\<^verbatim>\<open>if result and len(result) > 0: return result[0]\<close>, else \<^verbatim>\<open>None\<close>. A
  record has no key \<^verbatim>\<open>0\<close>, a number has no length, a string yields its first
  character.\<close>

fun first_or_none :: "pyval \<Rightarrow> exn + pyval" where
  "first_or_none (PList []) = Inr (Scalar PNone)"
| "first_or_none (PList (x # xs)) = Inr x"
| "first_or_none (Dict []) = Inr (Scalar PNone)"
| "first_or_none (Dict (kv # d)) = Inl KeyError"
| "first_or_none (Scalar PNone) = Inr (Scalar PNone)"
| "first_or_none (Scalar (PBool b)) = (if b then Inl TypeError else Inr (Scalar PNone))"
| "first_or_none (Scalar (PInt i)) = (if i \<noteq> 0 then Inl TypeError else Inr (Scalar PNone))"
| "first_or_none (Scalar (PStr [])) = Inr (Scalar PNone)"
| "first_or_none (Scalar (PStr (ch # cs))) = Inr (Scalar (PStr [ch]))"

definition client_get_iscsi_target_by_name ::
  "transport \<Rightarrow> client \<Rightarrow> state \<Rightarrow> string \<Rightarrow> (exn + pyval) \<times> state" where
  "client_get_iscsi_target_by_name srv c s target_name =
     (case client_request srv c s ''GET'' (base_url c @ ''/iscsi/targets'') None
             (Some [(''name'', PStr target_name)]) of
        (Inl (QSANApiException m), s1) \<Rightarrow> (Inr (Scalar PNone), s1)
      | (Inl e, s1) \<Rightarrow> (Inl e, s1)
      | (Inr result, s1) \<Rightarrow> (first_or_none result, s1))"

definition client_map_volume_to_target ::
  "transport \<Rightarrow> client \<Rightarrow> state \<Rightarrow> string \<Rightarrow> scalar \<Rightarrow> scalar \<Rightarrow> (exn + pyval) \<times> state" where
  "client_map_volume_to_target srv c s volume_name target_id lun_id =
     client_request srv c s ''POST''
       (base_url c @ ''/iscsi/targets/'' @ py_str target_id @ ''/luns'')
       (Some ((''volume'', PStr volume_name) #
              (if lun_id \<noteq> PNone then [(''lun_id'', lun_id)] else [])))
       None"

definition client_add_initiator_to_target ::
  "transport \<Rightarrow> client \<Rightarrow> state \<Rightarrow> scalar \<Rightarrow> string \<Rightarrow> (exn + pyval) \<times> state" where
  "client_add_initiator_to_target srv c s target_id initiator_iqn =
     client_request srv c s ''POST''
       (base_url c @ ''/iscsi/targets/'' @ py_str target_id @ ''/acl'')
       (Some [(''initiator'', PStr initiator_iqn)]) None"

definition client_set_target_chap ::
  "transport \<Rightarrow> client \<Rightarrow> state \<Rightarrow> scalar \<Rightarrow> string \<Rightarrow> string \<Rightarrow> (exn + pyval) \<times> state" where
  "client_set_target_chap srv c s target_id user pass =
     client_request srv c s ''PUT''
       (base_url c @ ''/iscsi/targets/'' @ py_str target_id @ ''/chap'')
       (Some [(''username'', PStr user), (''password'', PStr pass)]) None"

section \<open>QSANISCSIDriver\<close>

text \<open>
  The driver after \<^verbatim>\<open>do_setup\<close>: its client object exists, and the client's session
  and token are in the state. Every operation takes the array, the client, the state (and
  the configuration it reads) and returns the value or the exception together with the new
  state. A Cinder volume is the plain data the driver reads from it.
\<close>

record volume =
  vol_id :: string
  vol_size :: int
  provider_location :: "string option"
  provider_auth :: "string option"

record snapshot =
  snap_id :: string
  snap_volume :: volume

record configuration =
  qsan_management_ip :: "string option"
  qsan_pool_name :: "string option"
  qsan_iscsi_portals :: "string list"
  qsan_chap_enabled :: bool
  qsan_chap_username :: "string option"
  qsan_chap_password :: "string option"
  qsan_thin_provision :: bool

definition get_volume_name :: "volume \<Rightarrow> string" where
  "get_volume_name v = ''volume-'' @ vol_id v"

definition get_snapshot_name :: "snapshot \<Rightarrow> string" where
  "get_snapshot_name sn = ''snapshot-'' @ snap_id sn"

definition get_target_name :: "volume \<Rightarrow> string" where
  "get_target_name v = ''target-'' @ vol_id v"

text \<open>
  \<^verbatim>\<open>except common.QSANApiException as e: raise VolumeBackendAPIException(data=msg)\<close>
  where \<^verbatim>\<open>msg\<close> ends with \<^verbatim>\<open>str(e)\<close>, the message under the class's template
  \<^verbatim>\<open>"QSAN API error: %(message)s"\<close>. Other exceptions are not caught.
\<close>

definition wrap_api_error :: "string \<Rightarrow> (exn + 'a) \<times> state \<Rightarrow> (exn + 'a) \<times> state" where
  "wrap_api_error prefix r =
     (case r of
        (Inl (QSANApiException m), s1) \<Rightarrow>
          (Inl (VolumeBackendAPIException (prefix @ ''QSAN API error: '' @ m)), s1)
      | (Inl e, s1) \<Rightarrow> (Inl e, s1)
      | (Inr v, s1) \<Rightarrow> (Inr v, s1))"

text \<open>\<^verbatim>\<open>d.get(key, default)\<close>; on anything but a record the attribute \<^verbatim>\<open>get\<close>
  does not exist.\<close>

fun dict_get :: "pyval \<Rightarrow> string \<Rightarrow> scalar \<Rightarrow> exn + scalar" where
  "dict_get (Dict d) k dflt = Inr (case map_of d k of None \<Rightarrow> dflt | Some v \<Rightarrow> v)"
| "dict_get (Scalar v) k dflt = Inl AttributeError"
| "dict_get (PList xs) k dflt = Inl AttributeError"

definition opt_scalar :: "string option \<Rightarrow> scalar" where
  "opt_scalar x = (case x of None \<Rightarrow> PNone | Some t \<Rightarrow> PStr t)"

text \<open>\<^verbatim>\<open>_get_iscsi_portals\<close>. An unset management address is \<^verbatim>\<open>None\<close>, on which
  the membership test \<^verbatim>\<open>':' not in portal\<close> raises \<^verbatim>\<open>TypeError\<close>.\<close>

fun add_default_port :: "string option list \<Rightarrow> exn + string list" where
  "add_default_port [] = Inr []"
| "add_default_port (None # ps) = Inl TypeError"
| "add_default_port (Some p # ps) =
     (case add_default_port ps of
        Inl e \<Rightarrow> Inl e
      | Inr qs \<Rightarrow> Inr ((if CHR '':'' \<notin> set p then p @ '':3260'' else p) # qs))"

definition get_iscsi_portals :: "configuration \<Rightarrow> exn + string list" where
  "get_iscsi_portals conf =
     add_default_port
       (if qsan_iscsi_portals conf \<noteq> [] then map Some (qsan_iscsi_portals conf)
        else [qsan_management_ip conf])"

definition driver_create_volume ::
  "transport \<Rightarrow> client \<Rightarrow> configuration \<Rightarrow> state \<Rightarrow> volume \<Rightarrow> (exn + unit) \<times> state" where
  "driver_create_volume srv c conf s v =
     wrap_api_error (''Failed to create volume '' @ get_volume_name v @ '': '')
       (case client_create_volume srv c s (opt_scalar (qsan_pool_name conf)) (get_volume_name v)
               (vol_size v) (qsan_thin_provision conf) of
          (Inl e, s1) \<Rightarrow> (Inl e, s1)
        | (Inr r, s1) \<Rightarrow> (Inr (), s1))"

definition driver_delete_volume ::
  "transport \<Rightarrow> client \<Rightarrow> state \<Rightarrow> volume \<Rightarrow> (exn + unit) \<times> state" where
  "driver_delete_volume srv c s v =
     wrap_api_error (''Failed to delete volume '' @ get_volume_name v @ '': '')
       (case client_get_volume srv c s (get_volume_name v) of
          (Inl e, s1) \<Rightarrow> (Inl e, s1)
        | (Inr vol_info, s1) \<Rightarrow>
            if vol_info = Scalar PNone then (Inr (), s1)
            else (case client_delete_volume srv c s1 (get_volume_name v) of
                    (Inl e, s2) \<Rightarrow> (Inl e, s2)
                  | (Inr r, s2) \<Rightarrow> (Inr (), s2)))"

definition driver_extend_volume ::
  "transport \<Rightarrow> client \<Rightarrow> state \<Rightarrow> volume \<Rightarrow> int \<Rightarrow> (exn + unit) \<times> state" where
  "driver_extend_volume srv c s v new_size =
     wrap_api_error (''Failed to extend volume '' @ get_volume_name v @ '': '')
       (case client_extend_volume srv c s (get_volume_name v) new_size of
          (Inl e, s1) \<Rightarrow> (Inl e, s1)
        | (Inr r, s1) \<Rightarrow> (Inr (), s1))"

definition driver_delete_snapshot ::
  "transport \<Rightarrow> client \<Rightarrow> state \<Rightarrow> snapshot \<Rightarrow> (exn + unit) \<times> state" where
  "driver_delete_snapshot srv c s sn =
     wrap_api_error (''Failed to delete snapshot '' @ get_snapshot_name sn @ '': '')
       (case client_get_snapshot srv c s (get_volume_name (snap_volume sn))
               (get_snapshot_name sn) of
          (Inl e, s1) \<Rightarrow> (Inl e, s1)
        | (Inr snap_info, s1) \<Rightarrow>
            if snap_info = Scalar PNone then (Inr (), s1)
            else (case client_delete_snapshot srv c s1 (get_volume_name (snap_volume sn))
                         (get_snapshot_name sn) of
                    (Inl e, s2) \<Rightarrow> (Inl e, s2)
                  | (Inr r, s2) \<Rightarrow> (Inr (), s2)))"

subsection \<open>Export: the persisted location string\<close>

text \<open>\<^verbatim>\<open>f"{';'.join(portals)} {target_iqn} {lun_id}"\<close> in \<^verbatim>\<open>create_export\<close>.\<close>

definition encode_location :: "string list \<Rightarrow> scalar \<Rightarrow> scalar \<Rightarrow> string" where
  "encode_location portals target_iqn lun_id =
     py_join '';'' portals @ '' '' @ py_str target_iqn @ '' '' @ py_str lun_id"

text \<open>The parse at the head of \<^verbatim>\<open>_get_iscsi_properties\<close>: split at spaces, split the
  first part at semicolons, take the second part, convert the third.\<close>

definition decode_location :: "string \<Rightarrow> exn + (string list \<times> string \<times> int)" where
  "decode_location loc =
     (case py_split CHR '' '' loc of
        p0 # p1 # p2 # rest \<Rightarrow>
          (case py_int p2 of
             None \<Rightarrow> Inl ValueError
           | Some lun \<Rightarrow> Inr (py_split CHR '';'' p0, p1, lun))
      | _ \<Rightarrow> Inl IndexError)"

record export =
  export_location :: string
  export_auth :: "string option"

text \<open>The CHAP block of \<^verbatim>\<open>create_export\<close>: \<^verbatim>\<open>provider_auth\<close> starts as
  \<^verbatim>\<open>None\<close>; with CHAP enabled and both credentials truthy the target's CHAP is set
  and the auth string is built.\<close>

definition chap_step ::
  "transport \<Rightarrow> client \<Rightarrow> configuration \<Rightarrow> state \<Rightarrow> scalar
     \<Rightarrow> (exn + string option) \<times> state" where
  "chap_step srv c conf s target_id =
     (if qsan_chap_enabled conf
      then (case (qsan_chap_username conf, qsan_chap_password conf) of
              (Some chap_user, Some chap_pass) \<Rightarrow>
                if chap_user \<noteq> [] \<and> chap_pass \<noteq> []
                then (case client_set_target_chap srv c s target_id chap_user chap_pass of
                        (Inl e, s1) \<Rightarrow> (Inl e, s1)
                      | (Inr r, s1) \<Rightarrow>
                          (Inr (Some (''CHAP '' @ chap_user @ '' '' @ chap_pass)), s1))
                else (Inr None, s)
            | _ \<Rightarrow> (Inr None, s))
      else (Inr None, s))"

text \<open>The statements of \<^verbatim>\<open>create_export\<close> inside its \<^verbatim>\<open>try\<close>.\<close>

definition create_export_body ::
  "transport \<Rightarrow> client \<Rightarrow> configuration \<Rightarrow> state \<Rightarrow> string \<Rightarrow> string \<Rightarrow> (exn + export) \<times> state" where
  "create_export_body srv c conf s volume_name target_name =
     (case client_create_iscsi_target srv c s target_name None of
        (Inl e, s1) \<Rightarrow> (Inl e, s1)
      | (Inr target_info, s1) \<Rightarrow>
     (case dict_get target_info ''id'' PNone of
        Inl e \<Rightarrow> (Inl e, s1)
      | Inr target_id \<Rightarrow>
     (case dict_get target_info ''iqn'' PNone of
        Inl e \<Rightarrow> (Inl e, s1)
      | Inr target_iqn \<Rightarrow>
     (case client_map_volume_to_target srv c s1 volume_name target_id PNone of
        (Inl e, s2) \<Rightarrow> (Inl e, s2)
      | (Inr mapping_info, s2) \<Rightarrow>
     (case dict_get mapping_info ''lun_id'' (PInt 0) of
        Inl e \<Rightarrow> (Inl e, s2)
      | Inr lun_id \<Rightarrow>
     (case chap_step srv c conf s2 target_id of
        (Inl e, s3) \<Rightarrow> (Inl e, s3)
      | (Inr auth, s3) \<Rightarrow>
     (case get_iscsi_portals conf of
        Inl e \<Rightarrow> (Inl e, s3)
      | Inr portals \<Rightarrow>
          (Inr \<lparr> export_location = encode_location portals target_iqn lun_id,
                 export_auth = auth \<rparr>, s3))))))))"

definition driver_create_export ::
  "transport \<Rightarrow> client \<Rightarrow> configuration \<Rightarrow> state \<Rightarrow> volume \<Rightarrow> (exn + export) \<times> state" where
  "driver_create_export srv c conf s v =
     wrap_api_error (''Failed to create export for volume '' @ get_volume_name v @ '': '')
       (create_export_body srv c conf s (get_volume_name v) (get_target_name v))"

definition driver_remove_export ::
  "transport \<Rightarrow> client \<Rightarrow> state \<Rightarrow> volume \<Rightarrow> (exn + unit) \<times> state" where
  "driver_remove_export srv c s v =
     wrap_api_error (''Failed to remove export for volume '' @ get_volume_name v @ '': '')
       (case client_get_iscsi_target_by_name srv c s (get_target_name v) of
          (Inl e, s1) \<Rightarrow> (Inl e, s1)
        | (Inr target_info, s1) \<Rightarrow>
            if target_info = Scalar PNone then (Inr (), s1)
            else (case dict_get target_info ''id'' PNone of
                    Inl e \<Rightarrow> (Inl e, s1)
                  | Inr target_id \<Rightarrow>
                      (case client_delete_iscsi_target srv c s1 target_id of
                         (Inl e, s2) \<Rightarrow> (Inl e, s2)
                       | (Inr r, s2) \<Rightarrow> (Inr (), s2))))"

subsection \<open>Connection properties\<close>

record iscsi_properties =
  target_discovered :: bool
  target_iqn :: string
  target_portal :: string
  target_lun :: int
  volume_id :: string
  target_portals :: "string list option"
  target_iqns :: "string list option"
  target_luns :: "int list option"
  auth_method :: "string option"
  auth_username :: "string option"
  auth_password :: "string option"

text \<open>The optional keys of the properties dictionary are optional fields: \<open>None\<close> is
  a key that is not in the dictionary.\<close>

definition add_chap :: "string option \<Rightarrow> iscsi_properties \<Rightarrow> iscsi_properties" where
  "add_chap auth props =
     (case auth of
        None \<Rightarrow> props
      | Some a \<Rightarrow>
          if a = [] then props
          else (case py_split CHR '' '' a of
                  a0 # a1 # a2 # rest \<Rightarrow>
                    props\<lparr>auth_method := Some a0, auth_username := Some a1,
                          auth_password := Some a2\<rparr>
                | _ \<Rightarrow> props))"

definition get_iscsi_properties :: "volume \<Rightarrow> exn + iscsi_properties" where
  "get_iscsi_properties v =
     (if \<not> truthy_str (provider_location v)
      then Inl (VolumeBackendAPIException (''Volume '' @ vol_id v @ '' has no provider_location''))
      else (case decode_location (case provider_location v of Some loc \<Rightarrow> loc | None \<Rightarrow> []) of
              Inl e \<Rightarrow> Inl e
            | Inr (portals, iqn, lun) \<Rightarrow>
                Inr (add_chap (provider_auth v)
                  \<lparr> target_discovered = False,
                    target_iqn = iqn,
                    target_portal = (case portals of p # ps \<Rightarrow> p | [] \<Rightarrow> []),
                    target_lun = lun,
                    volume_id = vol_id v,
                    target_portals = (if length portals > 1 then Some portals else None),
                    target_iqns =
                      (if length portals > 1 then Some (replicate (length portals) iqn) else None),
                    target_luns =
                      (if length portals > 1 then Some (replicate (length portals) lun) else None),
                    auth_method = None, auth_username = None, auth_password = None \<rparr>)))"

record connection_info =
  driver_volume_type :: string
  conn_data :: iscsi_properties

text \<open>The ACL step of \<^verbatim>\<open>initialize_connection\<close>: only a \<^verbatim>\<open>QSANApiException\<close> of
  the add call itself is swallowed.\<close>

definition add_initiator_step ::
  "transport \<Rightarrow> client \<Rightarrow> state \<Rightarrow> volume \<Rightarrow> (string \<times> string) list option
     \<Rightarrow> (exn + unit) \<times> state" where
  "add_initiator_step srv c s v connector =
     (case connector of
        None \<Rightarrow> (Inr (), s)
      | Some d \<Rightarrow>
          (case map_of d ''initiator'' of
             None \<Rightarrow> (Inr (), s)
           | Some initiator_iqn \<Rightarrow>
               (case client_get_iscsi_target_by_name srv c s (get_target_name v) of
                  (Inl e, s1) \<Rightarrow> (Inl e, s1)
                | (Inr target_info, s1) \<Rightarrow>
                    if truthy target_info
                    then (case dict_get target_info ''id'' PNone of
                            Inl e \<Rightarrow> (Inl e, s1)
                          | Inr target_id \<Rightarrow>
                              (case client_add_initiator_to_target srv c s1 target_id
                                      initiator_iqn of
                                 (Inl (QSANApiException m), s2) \<Rightarrow> (Inr (), s2)
                               | (Inl e, s2) \<Rightarrow> (Inl e, s2)
                               | (Inr r, s2) \<Rightarrow> (Inr (), s2)))
                    else (Inr (), s1))))"

text \<open>\<^verbatim>\<open>initialize_connection\<close>; its handler logs and re-raises the same exception.\<close>

definition driver_initialize_connection ::
  "transport \<Rightarrow> client \<Rightarrow> state \<Rightarrow> volume \<Rightarrow> (string \<times> string) list option
     \<Rightarrow> (exn + connection_info) \<times> state" where
  "driver_initialize_connection srv c s v connector =
     (case add_initiator_step srv c s v connector of
        (Inl e, s1) \<Rightarrow> (Inl e, s1)
      | (Inr u, s1) \<Rightarrow>
          (case get_iscsi_properties v of
             Inl e \<Rightarrow> (Inl e, s1)
           | Inr props \<Rightarrow> (Inr \<lparr> driver_volume_type = ''iscsi'', conn_data = props \<rparr>, s1)))"

section \<open>Traces of a retried request, and sample inputs\<close>

text \<open>The events of \<open>n\<close> attempts at one request with a one-second sleep between
  consecutive attempts: \<open>Sent, Slept 1, Sent, \<dots>, Sent\<close>.\<close>

fun retry_events :: "request \<Rightarrow> nat \<Rightarrow> event list" where
  "retry_events r 0 = []"
| "retry_events r (Suc 0) = [Sent r]"
| "retry_events r (Suc (Suc n)) = Sent r # Slept 1 # retry_events r (Suc n)"

text \<open>The requests among some events, and the events a call added to the trace.\<close>

fun sent_requests :: "event list \<Rightarrow> request list" where
  "sent_requests [] = []"
| "sent_requests (Sent r # es) = r # sent_requests es"
| "sent_requests (Slept n # es) = sent_requests es"

definition new_events :: "state \<Rightarrow> state \<Rightarrow> event list" where
  "new_events s s' = drop (length (trace s)) (trace s')"

text \<open>From \<open>s\<close> to \<open>s'\<close> the trace was only extended, session and token are the same,
  and every request sent in between satisfies \<open>P\<close>.\<close>

definition sends_only :: "(request \<Rightarrow> bool) \<Rightarrow> state \<Rightarrow> state \<Rightarrow> bool" where
  "sends_only P s s' =
     (take (length (trace s)) (trace s') = trace s
      \<and> session s' = session s \<and> session_token s' = session_token s
      \<and> list_all P (sent_requests (new_events s s')))"

text \<open>The client of the unit tests (three attempts) with an open session.\<close>

definition demo_client :: client where
  "demo_client = \<lparr> host = ''192.168.1.100'', port = 443, protocol = ''https'',
     username = ''admin'', password = ''password'', ssl_verify = False, timeout = 60,
     retry_count = 3 \<rparr>"

definition demo_state :: state where
  "demo_state = \<lparr> session = Some False, session_token = PStr ''fake-token'', trace = [] \<rparr>"

definition demo_request :: request where
  "demo_request = build_request demo_client demo_state ''GET'' ''http://test/api/test'' None None"

definition srv_down :: transport where
  "srv_down n r = ConnectionError ''Connection failed''"

definition srv_flaky :: transport where
  "srv_flaky n r =
     (if n < 2 then ConnectionError ''Connection failed''
      else Response 200 ''OK'' (Some (Dict [(''result'', PStr ''success'')])))"

definition srv_500 :: transport where
  "srv_500 n r = Response 500 ''Internal Server Error'' None"

definition srv_500_then_ok :: transport where
  "srv_500_then_ok n r =
     (if n < 1 then Response 500 ''Internal Server Error'' None
      else Response 200 ''OK'' (Some (Dict [(''result'', PStr ''success'')])))"

definition logged_out_state :: state where
  "logged_out_state = \<lparr> session = None, session_token = PNone, trace = [] \<rparr>"

definition srv_404 :: transport where
  "srv_404 n r = Response 404 ''Not Found'' None"

definition srv_ok_empty :: transport where
  "srv_ok_empty n r = Response 200 ''OK'' None"

definition srv_no_targets :: transport where
  "srv_no_targets n r = Response 200 ''OK'' (Some (PList []))"

text \<open>An array that creates a target, maps a LUN and accepts the CHAP setting.\<close>

definition srv_export :: transport where
  "srv_export n r =
     (if n = 0 then Response 201 ''Created''
        (Some (Dict [(''id'', PStr ''target-001''), (''iqn'', PStr ''iqn.2004-08.com.qsan:t1'')]))
      else if n = 1 then Response 201 ''Created'' (Some (Dict [(''lun_id'', PInt 0)]))
      else Response 200 ''OK'' None)"

definition chap_configuration :: configuration where
  "chap_configuration = \<lparr> qsan_management_ip = Some ''192.168.1.100'',
     qsan_pool_name = Some ''Pool-1'', qsan_iscsi_portals = [''10.0.0.1'', ''10.0.0.2''],
     qsan_chap_enabled = True, qsan_chap_username = Some ''chap_user'',
     qsan_chap_password = Some ''chap_pass'', qsan_thin_provision = True \<rparr>"

definition chap_incomplete_configuration :: configuration where
  "chap_incomplete_configuration = \<lparr> qsan_management_ip = Some ''192.168.1.100'',
     qsan_pool_name = Some ''Pool-1'', qsan_iscsi_portals = [''10.0.0.1'', ''10.0.0.2''],
     qsan_chap_enabled = True, qsan_chap_username = Some ''chap_user'',
     qsan_chap_password = None, qsan_thin_provision = True \<rparr>"

definition demo_volume :: volume where
  "demo_volume = \<lparr> vol_id = ''fake-volume-id'', vol_size = 10, provider_location = None,
     provider_auth = None \<rparr>"

definition exported_volume :: volume where
  "exported_volume = demo_volume\<lparr>provider_location :=
     Some ''10.0.0.1:3260;10.0.0.2:3260 iqn.2004-08.com.qsan:t1 0''\<rparr>"

definition single_portal_volume :: volume where
  "single_portal_volume = demo_volume\<lparr>provider_location :=
     Some ''10.0.0.1:3260 iqn.2004-08.com.qsan:t1 0''\<rparr>"

definition unexported_volume :: volume where
  "unexported_volume = demo_volume\<lparr>provider_location := Some []\<rparr>"

definition demo_connector :: "(string \<times> string) list option" where
  "demo_connector = Some [(''initiator'', ''iqn.1993-08.org.debian:01:604af6a341'')]"

text \<open>An array that answers the target lookup with one record instead of a list.\<close>

definition srv_target_record :: transport where
  "srv_target_record n r = Response 200 ''OK'' (Some (Dict [(''id'', PStr ''target-001'')]))"

definition demo_snapshot :: snapshot where
  "demo_snapshot = \<lparr> snap_id = ''fake-snapshot-id'', snap_volume = demo_volume \<rparr>"

definition demo_configuration :: configuration where
  "demo_configuration = \<lparr> qsan_management_ip = Some ''192.168.1.100'',
     qsan_pool_name = Some ''Pool-1'', qsan_iscsi_portals = [''10.0.0.1'', ''10.0.0.2''],
     qsan_chap_enabled = False, qsan_chap_username = None, qsan_chap_password = None,
     qsan_thin_provision = True \<rparr>"

section \<open>Properties of the retrying request\<close>

lemma count_sent_append [simp]: "count_sent (xs @ ys) = count_sent xs + count_sent ys"
  by (simp add: count_sent_def)

lemma count_sent_simps [simp]:
  "count_sent [] = 0"
  "count_sent (Sent r # es) = Suc (count_sent es)"
  "count_sent (Slept n # es) = count_sent es"
  by (simp_all add: count_sent_def)

lemma count_slept_simps [simp]:
  "count_slept [] = 0"
  "count_slept (Sent r # es) = count_slept es"
  "count_slept (Slept n # es) = Suc (count_slept es)"
  by (simp_all add: count_slept_def)

lemma count_slept_append [simp]: "count_slept (xs @ ys) = count_slept xs + count_slept ys"
  by (simp add: count_slept_def)

lemma count_sent_retry_events: "count_sent (retry_events r n) = n"
  by (induction r n rule: retry_events.induct) simp_all

lemma count_slept_retry_events: "count_slept (retry_events r n) = n - 1"
  by (induction r n rule: retry_events.induct) simp_all

text \<open>Every attempt of the remaining budget raises: the loop uses the budget up, sleeping
  between attempts, and raises the API exception at the last one.\<close>

lemma attempts_all_fail:
  "(\<forall>i<Suc k. \<exists>e. attempt_outcome (srv (count_sent tr + i) req) (req_url req) = Inl e)
   \<Longrightarrow> int attempt + int (Suc k) = rc
   \<Longrightarrow> \<exists>m. request_attempts srv (Some vf) req rc attempt (Suc k) tr
          = (Inl (QSANApiException m), tr @ retry_events req (Suc k))"
proof (induction k arbitrary: attempt tr)
  case 0
  then obtain e where "attempt_outcome (srv (count_sent tr) req) (req_url req) = Inl e"
    by auto
  with 0 show ?case by simp
next
  case (Suc k)
  from Suc.prems(1) obtain e
    where e: "attempt_outcome (srv (count_sent tr) req) (req_url req) = Inl e"
    by (metis add.right_neutral zero_less_Suc)
  have lt: "int attempt < rc - 1" using Suc.prems(2) by simp
  let ?tr = "tr @ [Sent req, Slept 1]"
  have cs: "count_sent ?tr = Suc (count_sent tr)" by simp
  have "\<forall>i<Suc k. \<exists>e. attempt_outcome (srv (count_sent ?tr + i) req) (req_url req) = Inl e"
  proof (intro allI impI)
    fix i assume "i < Suc k"
    then have "Suc i < Suc (Suc k)" by simp
    with Suc.prems(1)
    have "\<exists>e. attempt_outcome (srv (count_sent tr + Suc i) req) (req_url req) = Inl e"
      by blast
    then show "\<exists>e. attempt_outcome (srv (count_sent ?tr + i) req) (req_url req) = Inl e"
      unfolding cs by simp
  qed
  moreover have "int (Suc attempt) + int (Suc k) = rc" using Suc.prems(2) by simp
  ultimately obtain m where
    "request_attempts srv (Some vf) req rc (Suc attempt) (Suc k) ?tr
       = (Inl (QSANApiException m), ?tr @ retry_events req (Suc k))"
    using Suc.IH by blast
  with e lt show ?case by simp
qed

text \<open>The first \<open>j\<close> attempts raise and the next one returns, within the budget.\<close>

lemma attempts_success_after:
  "(\<forall>i<j. \<exists>e. attempt_outcome (srv (count_sent tr + i) req) (req_url req) = Inl e)
   \<Longrightarrow> attempt_outcome (srv (count_sent tr + j) req) (req_url req) = Inr v
   \<Longrightarrow> j < n
   \<Longrightarrow> int attempt + int n = rc
   \<Longrightarrow> request_attempts srv (Some vf) req rc attempt n tr
        = (Inr v, tr @ retry_events req (Suc j))"
proof (induction j arbitrary: attempt n tr)
  case 0
  then obtain k where "n = Suc k" by (cases n) auto
  with 0 show ?case by simp
next
  case (Suc j)
  then obtain k where n: "n = Suc k" and jk: "j < k" by (cases n) auto
  from Suc.prems(1) obtain e
    where e: "attempt_outcome (srv (count_sent tr) req) (req_url req) = Inl e"
    by (metis add.right_neutral zero_less_Suc)
  have lt: "int attempt < rc - 1" using Suc.prems(4) n jk by simp
  let ?tr = "tr @ [Sent req, Slept 1]"
  have cs: "count_sent ?tr = Suc (count_sent tr)" by simp
  have a: "\<forall>i<j. \<exists>e. attempt_outcome (srv (count_sent ?tr + i) req) (req_url req) = Inl e"
  proof (intro allI impI)
    fix i assume "i < j"
    then have "Suc i < Suc j" by simp
    with Suc.prems(1)
    have "\<exists>e. attempt_outcome (srv (count_sent tr + Suc i) req) (req_url req) = Inl e"
      by blast
    then show "\<exists>e. attempt_outcome (srv (count_sent ?tr + i) req) (req_url req) = Inl e"
      unfolding cs by simp
  qed
  have b: "attempt_outcome (srv (count_sent ?tr + j) req) (req_url req) = Inr v"
    using Suc.prems(2) unfolding cs by simp
  have c: "int (Suc attempt) + int k = rc" using Suc.prems(4) n by simp
  have "request_attempts srv (Some vf) req rc (Suc attempt) k ?tr
          = (Inr v, ?tr @ retry_events req (Suc j))"
    using Suc.IH [OF a b jk c] .
  then show ?case using e lt n by (cases j) simp_all
qed

lemma attempt_outcome_connection [simp]:
  "attempt_outcome (ConnectionError m) u = Inl (ConnectionFailure m)"
  by (simp add: attempt_outcome_def)

lemma attempt_outcome_http_error:
  "400 \<le> st \<Longrightarrow> st < 600 \<Longrightarrow> \<exists>e. attempt_outcome (Response st reason content) u = Inl e"
  by (simp add: attempt_outcome_def raise_for_status_def)

lemma attempt_outcome_ok:
  "st < 400 \<or> 600 \<le> st \<Longrightarrow>
   attempt_outcome (Response st reason content) u
     = Inr (case content of None \<Rightarrow> Scalar PNone | Some v \<Rightarrow> v)"
  by (auto simp add: attempt_outcome_def raise_for_status_def)

lemma req_url_build_request [simp]: "req_url (build_request c s m u data ps) = u"
  by (simp add: build_request_def)

text \<open>
  Claim C3 (retry budget). With \<open>retry_count = N \<ge> 1\<close> and an open session: when every one
  of the \<open>N\<close> attempts gets a connection-level failure, \<^verbatim>\<open>_request\<close> raises
  \<^verbatim>\<open>QSANApiException\<close> after exactly \<open>N\<close> attempts and \<open>N - 1\<close> sleeps of
  one second; when the first \<open>k < N\<close> attempts get a connection-level failure and attempt
  \<open>k + 1\<close> gets a response with a non-error status, it returns that response's value
  after exactly \<open>k + 1\<close> attempts and \<open>k\<close> sleeps. The events appended to the trace are
  the attempts with one sleep between consecutive ones.
\<close>

theorem request_retry_budget:
  assumes rc: "1 \<le> retry_count c" and sess: "session s = Some vf"
  shows
    "let req = build_request c s m u data ps; N = nat (retry_count c);
         n0 = count_sent (trace s)
     in ((\<forall>i<N. \<exists>msg. srv (n0 + i) req = ConnectionError msg) \<longrightarrow>
           (\<exists>msg. client_request srv c s m u data ps
                    = (Inl (QSANApiException msg), s\<lparr>trace := trace s @ retry_events req N\<rparr>))
           \<and> count_sent (retry_events req N) = N
           \<and> count_slept (retry_events req N) = N - 1)
      \<and> (\<forall>k st reason content.
            k < N \<and> (\<forall>i<k. \<exists>msg. srv (n0 + i) req = ConnectionError msg)
            \<and> srv (n0 + k) req = Response st reason content \<and> (st < 400 \<or> 600 \<le> st) \<longrightarrow>
            client_request srv c s m u data ps
              = (Inr (case content of None \<Rightarrow> Scalar PNone | Some v \<Rightarrow> v),
                 s\<lparr>trace := trace s @ retry_events req (Suc k)\<rparr>)
            \<and> count_sent (retry_events req (Suc k)) = Suc k
            \<and> count_slept (retry_events req (Suc k)) = k)"
proof -
  define req where "req = build_request c s m u data ps"
  define N where "N = nat (retry_count c)"
  define n0 where "n0 = count_sent (trace s)"
  obtain k0 where N: "N = Suc k0" using rc by (cases N) (auto simp: N_def)
  have budget: "int 0 + int N = retry_count c" using rc by (simp add: N_def)
  have url: "req_url req = u" by (simp add: req_def)
  have A: "\<exists>msg. client_request srv c s m u data ps
                    = (Inl (QSANApiException msg), s\<lparr>trace := trace s @ retry_events req N\<rparr>)"
    if down: "\<forall>i<N. \<exists>msg. srv (n0 + i) req = ConnectionError msg"
  proof -
    have "\<forall>i<Suc k0. \<exists>e. attempt_outcome (srv (count_sent (trace s) + i) req) (req_url req) = Inl e"
    proof (intro allI impI)
      fix i assume "i < Suc k0"
      with down N obtain msg where "srv (n0 + i) req = ConnectionError msg" by auto
      then show "\<exists>e. attempt_outcome (srv (count_sent (trace s) + i) req) (req_url req) = Inl e"
        by (simp add: n0_def)
    qed
    have fails: "\<forall>i<Suc k0. \<exists>e. attempt_outcome (srv (count_sent (trace s) + i) req) (req_url req) = Inl e"
      by fact
    have bud: "int 0 + int (Suc k0) = retry_count c" using budget N by simp
    from attempts_all_fail [where k = k0 and srv = srv and tr = "trace s" and req = req
          and attempt = 0 and rc = "retry_count c" and vf = vf, OF fails bud] N
    obtain msg where "request_attempts srv (Some vf) req (retry_count c) 0 N (trace s)
        = (Inl (QSANApiException msg), trace s @ retry_events req N)"
      by auto
    then show ?thesis
      by (simp add: client_request_def sess req_def [symmetric] N_def [symmetric])
  qed
  have B: "client_request srv c s m u data ps
              = (Inr (case content of None \<Rightarrow> Scalar PNone | Some v \<Rightarrow> v),
                 s\<lparr>trace := trace s @ retry_events req (Suc k)\<rparr>)"
    if kN: "k < N" and down: "\<forall>i<k. \<exists>msg. srv (n0 + i) req = ConnectionError msg"
      and ok: "srv (n0 + k) req = Response st reason content" and st: "st < 400 \<or> 600 \<le> st"
    for k st reason content
  proof -
    have a: "\<forall>i<k. \<exists>e. attempt_outcome (srv (count_sent (trace s) + i) req) (req_url req) = Inl e"
    proof (intro allI impI)
      fix i assume "i < k"
      with down obtain msg where "srv (n0 + i) req = ConnectionError msg" by auto
      then show "\<exists>e. attempt_outcome (srv (count_sent (trace s) + i) req) (req_url req) = Inl e"
        by (simp add: n0_def)
    qed
    have b: "attempt_outcome (srv (count_sent (trace s) + k) req) (req_url req)
               = Inr (case content of None \<Rightarrow> Scalar PNone | Some v \<Rightarrow> v)"
      using ok attempt_outcome_ok [OF st] by (simp add: n0_def)
    have "request_attempts srv (Some vf) req (retry_count c) 0 N (trace s)
            = (Inr (case content of None \<Rightarrow> Scalar PNone | Some v \<Rightarrow> v),
               trace s @ retry_events req (Suc k))"
      using attempts_success_after [where j = k and srv = srv and tr = "trace s" and req = req
          and attempt = 0 and rc = "retry_count c" and vf = vf and n = N, OF a b kN budget] .
    then show ?thesis
      by (simp add: client_request_def sess req_def [symmetric] N_def [symmetric])
  qed
  have C: "count_sent (retry_events req n) = n" "count_slept (retry_events req n) = n - 1" for n
    by (simp_all add: count_sent_retry_events count_slept_retry_events)
  show ?thesis
    unfolding Let_def req_def [symmetric] N_def [symmetric] n0_def [symmetric]
    using A B C by auto
qed

theorem request_retry_budget_witness:
  "1 \<le> retry_count demo_client \<and> session demo_state = Some False
   \<and> srv_down 0 demo_request = ConnectionError ''Connection failed''
   \<and> srv_down 1 demo_request = ConnectionError ''Connection failed''
   \<and> srv_down 2 demo_request = ConnectionError ''Connection failed''
   \<and> (\<exists>msg. client_request srv_down demo_client demo_state ''GET'' ''http://test/api/test''
                None None
              = (Inl (QSANApiException msg),
                 demo_state\<lparr>trace := trace demo_state @ retry_events demo_request 3\<rparr>))
   \<and> srv_flaky 0 demo_request = ConnectionError ''Connection failed''
   \<and> srv_flaky 1 demo_request = ConnectionError ''Connection failed''
   \<and> srv_flaky 2 demo_request
        = Response 200 ''OK'' (Some (Dict [(''result'', PStr ''success'')]))
   \<and> client_request srv_flaky demo_client demo_state ''GET'' ''http://test/api/test'' None None
        = (Inr (Dict [(''result'', PStr ''success'')]),
           demo_state\<lparr>trace := trace demo_state @ retry_events demo_request (Suc 2)\<rparr>)"
proof -
  have h1: "1 \<le> retry_count demo_client" by (simp add: demo_client_def)
  have h2: "session demo_state = Some False" by (simp add: demo_state_def)
  have N: "nat (retry_count demo_client) = 3" by (simp add: demo_client_def)
  have n0: "count_sent (trace demo_state) = 0" by (simp add: demo_state_def)
  have d: "\<forall>i<3. \<exists>msg. srv_down (0 + i) demo_request = ConnectionError msg"
    by (simp add: srv_down_def)
  have f: "\<forall>i<2. \<exists>msg. srv_flaky (0 + i) demo_request = ConnectionError msg"
    by (simp add: srv_flaky_def)
  have g: "srv_flaky (0 + 2) demo_request
             = Response 200 ''OK'' (Some (Dict [(''result'', PStr ''success'')]))"
    by (simp add: srv_flaky_def)
  have st: "(200::nat) < 400 \<or> (600::nat) \<le> 200" by simp
  note down = request_retry_budget [OF h1 h2, where srv = srv_down and m = "''GET''"
      and u = "''http://test/api/test''" and data = None and ps = None,
      unfolded Let_def N n0 demo_request_def [symmetric]]
  note flaky = request_retry_budget [OF h1 h2, where srv = srv_flaky and m = "''GET''"
      and u = "''http://test/api/test''" and data = None and ps = None,
      unfolded Let_def N n0 demo_request_def [symmetric]]
  from down d have r1: "\<exists>msg. client_request srv_down demo_client demo_state ''GET''
        ''http://test/api/test'' None None
      = (Inl (QSANApiException msg),
         demo_state\<lparr>trace := trace demo_state @ retry_events demo_request 3\<rparr>)"
    by blast
  have "(2::nat) < 3" by simp
  with flaky f g st
  have r2: "client_request srv_flaky demo_client demo_state ''GET'' ''http://test/api/test''
        None None
      = (Inr (case Some (Dict [(''result'', PStr ''success'')]) of
                None \<Rightarrow> Scalar PNone | Some v \<Rightarrow> v),
         demo_state\<lparr>trace := trace demo_state @ retry_events demo_request (Suc 2)\<rparr>)"
    by blast
  then have r2': "client_request srv_flaky demo_client demo_state ''GET''
        ''http://test/api/test'' None None
      = (Inr (Dict [(''result'', PStr ''success'')]),
         demo_state\<lparr>trace := trace demo_state @ retry_events demo_request (Suc 2)\<rparr>)"
    by simp
  have e: "srv_down 0 demo_request = ConnectionError ''Connection failed''"
    "srv_down 1 demo_request = ConnectionError ''Connection failed''"
    "srv_down 2 demo_request = ConnectionError ''Connection failed''"
    "srv_flaky 0 demo_request = ConnectionError ''Connection failed''"
    "srv_flaky 1 demo_request = ConnectionError ''Connection failed''"
    "srv_flaky 2 demo_request
       = Response 200 ''OK'' (Some (Dict [(''result'', PStr ''success'')]))"
    by (simp_all add: srv_down_def srv_flaky_def)
  from h1 h2 e r1 r2' show ?thesis by blast
qed

text \<open>
  Claim C1, as stated, fails: an HTTP status error is a \<^verbatim>\<open>RequestException\<close> like a
  connection failure, and the handler of \<^verbatim>\<open>_request\<close> retries it. With three attempts
  allowed, a server that always answers 500 is asked three times; a server that answers 500
  and then 200 makes the call succeed at the second attempt.
\<close>

theorem request_http_error_counterexample:
  "srv_500 0 demo_request = Response 500 ''Internal Server Error'' None
   \<and> fst (client_request srv_500 demo_client demo_state ''GET'' ''http://test/api/test'' None None)
       = Inl (QSANApiException
           ''QSAN API request failed: 500 Server Error: Internal Server Error for url: http://test/api/test'')
   \<and> count_sent (trace (snd (client_request srv_500 demo_client demo_state ''GET''
         ''http://test/api/test'' None None))) = 3
   \<and> srv_500_then_ok 0 demo_request = Response 500 ''Internal Server Error'' None
   \<and> fst (client_request srv_500_then_ok demo_client demo_state ''GET'' ''http://test/api/test''
         None None) = Inr (Dict [(''result'', PStr ''success'')])
   \<and> count_sent (trace (snd (client_request srv_500_then_ok demo_client demo_state ''GET''
         ''http://test/api/test'' None None))) = 2"
  by code_simp

text \<open>
  Claim C1, amended. With \<open>retry_count = N \<ge> 1\<close> and an open session, a call whose
  every attempt receives a 4xx/5xx status raises \<^verbatim>\<open>QSANApiException\<close> after exactly
  \<open>N\<close> attempts with \<open>N - 1\<close> one-second sleeps: HTTP status errors are retried like
  connection-level failures, and the call stops after one attempt only when \<open>N = 1\<close>.
\<close>

theorem request_http_error_retried:
  assumes rc: "1 \<le> retry_count c" and sess: "session s = Some vf"
    and http: "\<forall>i < nat (retry_count c). \<exists>st reason content.
        srv (count_sent (trace s) + i) (build_request c s m u data ps) = Response st reason content
        \<and> 400 \<le> st \<and> st < 600"
  shows "(\<exists>msg. client_request srv c s m u data ps
            = (Inl (QSANApiException msg),
               s\<lparr>trace := trace s @ retry_events (build_request c s m u data ps)
                                     (nat (retry_count c))\<rparr>))
         \<and> count_sent (retry_events (build_request c s m u data ps) (nat (retry_count c)))
             = nat (retry_count c)
         \<and> count_slept (retry_events (build_request c s m u data ps) (nat (retry_count c)))
             = nat (retry_count c) - 1"
proof -
  define req where "req = build_request c s m u data ps"
  obtain k0 where N: "nat (retry_count c) = Suc k0" using rc by (cases "nat (retry_count c)") auto
  have bud: "int 0 + int (Suc k0) = retry_count c" using rc N by linarith
  have fails: "\<forall>i<Suc k0. \<exists>e. attempt_outcome (srv (count_sent (trace s) + i) req) (req_url req) = Inl e"
  proof (intro allI impI)
    fix i assume "i < Suc k0"
    with http N obtain st reason content
      where "srv (count_sent (trace s) + i) req = Response st reason content"
        and "400 \<le> st" and "st < 600"
      unfolding req_def by metis
    then show "\<exists>e. attempt_outcome (srv (count_sent (trace s) + i) req) (req_url req) = Inl e"
      using attempt_outcome_http_error by simp
  qed
  from attempts_all_fail [where k = k0 and srv = srv and tr = "trace s" and req = req
        and attempt = 0 and rc = "retry_count c" and vf = vf, OF fails bud]
  obtain msg where "request_attempts srv (Some vf) req (retry_count c) 0 (Suc k0) (trace s)
      = (Inl (QSANApiException msg), trace s @ retry_events req (Suc k0))"
    by auto
  then have "\<exists>msg. client_request srv c s m u data ps
            = (Inl (QSANApiException msg), s\<lparr>trace := trace s @ retry_events req (nat (retry_count c))\<rparr>)"
    by (simp add: client_request_def sess req_def [symmetric] N)
  then show ?thesis
    unfolding req_def [symmetric]
    by (simp add: count_sent_retry_events count_slept_retry_events)
qed

theorem request_http_error_retried_witness:
  "1 \<le> retry_count demo_client \<and> session demo_state = Some False
   \<and> srv_500 0 demo_request = Response 500 ''Internal Server Error'' None
   \<and> srv_500 1 demo_request = Response 500 ''Internal Server Error'' None
   \<and> srv_500 2 demo_request = Response 500 ''Internal Server Error'' None
   \<and> (\<exists>msg. client_request srv_500 demo_client demo_state ''GET'' ''http://test/api/test''
                None None
              = (Inl (QSANApiException msg),
                 demo_state\<lparr>trace := trace demo_state
                     @ retry_events demo_request (nat (retry_count demo_client))\<rparr>))
   \<and> count_sent (retry_events demo_request (nat (retry_count demo_client))) = 3"
proof -
  have h1: "1 \<le> retry_count demo_client" by (simp add: demo_client_def)
  have h2: "session demo_state = Some False" by (simp add: demo_state_def)
  have N: "nat (retry_count demo_client) = 3" by (simp add: demo_client_def)
  have h3: "\<forall>i<nat (retry_count demo_client). \<exists>st reason content.
         srv_500 (count_sent (trace demo_state) + i)
           (build_request demo_client demo_state ''GET'' ''http://test/api/test'' None None)
           = Response st reason content \<and> 400 \<le> st \<and> st < 600"
    by (simp add: srv_500_def)
  note T = request_http_error_retried [where c = demo_client and s = demo_state and vf = False
      and srv = srv_500 and m = "''GET''" and u = "''http://test/api/test''" and data = None
      and ps = None, OF h1 h2 h3, unfolded demo_request_def [symmetric]]
  from T have c3: "count_sent (retry_events demo_request (nat (retry_count demo_client))) = 3"
    using N by simp
  have e: "srv_500 0 demo_request = Response 500 ''Internal Server Error'' None"
    "srv_500 1 demo_request = Response 500 ''Internal Server Error'' None"
    "srv_500 2 demo_request = Response 500 ''Internal Server Error'' None"
    by (simp_all add: srv_500_def)
  from h1 h2 e T c3 show ?thesis by blast
qed

section \<open>What a request leaves behind\<close>

lemma sent_requests_append [simp]:
  "sent_requests (xs @ ys) = sent_requests xs @ sent_requests ys"
  by (induction xs rule: sent_requests.induct) simp_all

text \<open>The loop only appends to the trace, and every request it sends is the one it was
  given.\<close>

lemma request_attempts_trace:
  "request_attempts srv sess req rc a k tr = (r, tr')
   \<Longrightarrow> \<exists>evs. tr' = tr @ evs \<and> set (sent_requests evs) \<subseteq> {req}"
proof (induction k arbitrary: a tr)
  case 0
  then show ?case by simp
next
  case (Suc k)
  show ?case
  proof (cases sess)
    case None
    with Suc.prems show ?thesis by simp
  next
    case (Some vf)
    show ?thesis
    proof (cases "attempt_outcome (srv (count_sent tr) req) (req_url req)")
      case (Inr v)
      with Suc.prems Some have "tr' = tr @ [Sent req]" by simp
      then show ?thesis by simp
    next
      case (Inl e)
      show ?thesis
      proof (cases "int a < rc - 1")
        case True
        with Suc.prems Some Inl
        have "request_attempts srv sess req rc (Suc a) k (tr @ [Sent req, Slept 1]) = (r, tr')"
          by simp
        from Suc.IH [OF this] obtain evs
          where "tr' = (tr @ [Sent req, Slept 1]) @ evs" and "set (sent_requests evs) \<subseteq> {req}"
          by blast
        then have "tr' = tr @ (Sent req # Slept 1 # evs)
                   \<and> set (sent_requests (Sent req # Slept 1 # evs)) \<subseteq> {req}"
          by simp
        then show ?thesis by blast
      next
        case False
        with Suc.prems Some Inl have "tr' = tr @ [Sent req]" by simp
        then show ?thesis by simp
      qed
    qed
  qed
qed

lemma client_request_effect:
  "client_request srv c s m u data ps = (r, s')
   \<Longrightarrow> session s' = session s \<and> session_token s' = session_token s
       \<and> length (trace s) \<le> length (trace s')
       \<and> set (sent_requests (new_events s s')) \<subseteq> {build_request c s m u data ps}"
proof -
  assume a: "client_request srv c s m u data ps = (r, s')"
  obtain r0 tr0 where
    ra: "request_attempts srv (session s) (build_request c s m u data ps)
           (retry_count c) 0 (nat (retry_count c)) (trace s) = (r0, tr0)"
    by (cases "request_attempts srv (session s) (build_request c s m u data ps)
           (retry_count c) 0 (nat (retry_count c)) (trace s)") auto
  from a ra have s': "s' = s\<lparr>trace := tr0\<rparr>" by (simp add: client_request_def)
  from request_attempts_trace [OF ra] obtain evs
    where "tr0 = trace s @ evs" and "set (sent_requests evs) \<subseteq> {build_request c s m u data ps}"
    by blast
  with s' show ?thesis by (simp add: new_events_def)
qed

lemma build_request_fields [simp]:
  "req_method (build_request c s m u data ps) = m"
  "req_json (build_request c s m u data ps) = data"
  "req_params (build_request c s m u data ps) = ps"
  by (simp_all add: build_request_def)

section \<open>Logout\<close>

text \<open>
  Claim C8 (logout). \<^verbatim>\<open>logout\<close> never raises, whatever the array answers to the logout
  request. Without a session or without a token it changes nothing; otherwise the session
  handle and the token are both \<^verbatim>\<open>None\<close> afterwards, also when the request failed.
\<close>

theorem logout_teardown:
  "fst (client_logout srv c s) = Inr ()
   \<and> (session s = None \<or> session_token s = PNone \<longrightarrow> snd (client_logout srv c s) = s)
   \<and> (session s \<noteq> None \<and> session_token s \<noteq> PNone \<longrightarrow>
        session (snd (client_logout srv c s)) = None
        \<and> session_token (snd (client_logout srv c s)) = PNone)"
  by (auto simp add: client_logout_def split: prod.splits)

theorem logout_teardown_witness:
  "session logged_out_state = None
   \<and> fst (client_logout srv_down demo_client logged_out_state) = Inr ()
   \<and> snd (client_logout srv_down demo_client logged_out_state) = logged_out_state
   \<and> session demo_state \<noteq> None \<and> session_token demo_state \<noteq> PNone
   \<and> fst (client_logout srv_down demo_client demo_state) = Inr ()
   \<and> session (snd (client_logout srv_down demo_client demo_state)) = None
   \<and> session_token (snd (client_logout srv_down demo_client demo_state)) = PNone"
proof -
  have a: "session logged_out_state = None" by (simp add: logged_out_state_def)
  have b: "session demo_state \<noteq> None" "session_token demo_state \<noteq> PNone"
    by (simp_all add: demo_state_def)
  note T1 = logout_teardown [where srv = srv_down and c = demo_client and s = logged_out_state]
  note T2 = logout_teardown [where srv = srv_down and c = demo_client and s = demo_state]
  from a b T1 T2 show ?thesis by blast
qed

lemma snd_wrap_api_error [simp]: "snd (wrap_api_error p r) = snd r"
  by (simp add: wrap_api_error_def split: prod.splits sum.splits exn.splits)

lemma snd_swallow_api_error [simp]: "snd (swallow_api_error r) = snd r"
  by (simp add: swallow_api_error_def split: prod.splits sum.splits exn.splits)

lemma client_request_sent:
  "set (sent_requests (new_events s (snd (client_request srv c s m u data ps))))
     \<subseteq> {build_request c s m u data ps}"
  using client_request_effect [of srv c s m u data ps]
  by (cases "client_request srv c s m u data ps") auto

text \<open>A first attempt that gets a non-error status ends the call with one request sent.\<close>

lemma client_request_first_ok:
  assumes "session s = Some vf" and "1 \<le> retry_count c"
    and "srv (count_sent (trace s)) (build_request c s m u data ps) = Response st reason content"
    and "st < 400 \<or> 600 \<le> st"
  shows "client_request srv c s m u data ps
           = (Inr (case content of None \<Rightarrow> Scalar PNone | Some v \<Rightarrow> v),
              s\<lparr>trace := trace s @ [Sent (build_request c s m u data ps)]\<rparr>)"
proof -
  let ?req = "build_request c s m u data ps"
  have a: "\<forall>i<0. \<exists>e. attempt_outcome (srv (count_sent (trace s) + i) ?req) (req_url ?req) = Inl e"
    by simp
  have b: "attempt_outcome (srv (count_sent (trace s) + 0) ?req) (req_url ?req)
             = Inr (case content of None \<Rightarrow> Scalar PNone | Some v \<Rightarrow> v)"
    using assms(3) attempt_outcome_ok [OF assms(4)] by simp
  have c: "0 < nat (retry_count c)" using assms(2) by simp
  have d: "int 0 + int (nat (retry_count c)) = retry_count c" using assms(2) by simp
  from attempts_success_after [where j = 0 and srv = srv and tr = "trace s" and req = ?req
        and attempt = 0 and rc = "retry_count c" and vf = vf and n = "nat (retry_count c)",
        OF a b c d]
  show ?thesis by (simp add: client_request_def assms(1))
qed

lemma new_events_append [simp]: "new_events s (s\<lparr>trace := trace s @ evs\<rparr>) = evs"
  by (simp add: new_events_def)

section \<open>Idempotent deletion\<close>

lemma no_delete_among:
  "set qs \<subseteq> {q} \<Longrightarrow> req_method q \<noteq> ''DELETE''
   \<Longrightarrow> filter (\<lambda>r. req_method r = ''DELETE'') qs = []"
  by (auto simp add: filter_empty_conv)

lemma snd_client_get_iscsi_target_by_name:
  "snd (client_get_iscsi_target_by_name srv c s target_name)
     = snd (client_request srv c s ''GET'' (base_url c @ ''/iscsi/targets'') None
              (Some [(''name'', PStr target_name)]))"
  by (simp add: client_get_iscsi_target_by_name_def split: prod.splits sum.splits exn.splits)

text \<open>
  Claim C5 (idempotent delete). When the presence check of \<^verbatim>\<open>delete_volume\<close> returns
  \<^verbatim>\<open>None\<close>, the call returns normally in the state the check left, and no request sent
  since the call began is a \<^verbatim>\<open>DELETE\<close>; the same for \<^verbatim>\<open>delete_snapshot\<close>.
\<close>

theorem delete_absent_is_noop:
  "(client_get_volume srv c s (get_volume_name v) = (Inr (Scalar PNone), s1) \<longrightarrow>
      driver_delete_volume srv c s v = (Inr (), s1)
      \<and> filter (\<lambda>q. req_method q = ''DELETE'') (sent_requests (new_events s s1)) = [])
   \<and> (client_get_snapshot srv c s (get_volume_name (snap_volume sn)) (get_snapshot_name sn)
         = (Inr (Scalar PNone), s2) \<longrightarrow>
      driver_delete_snapshot srv c s sn = (Inr (), s2)
      \<and> filter (\<lambda>q. req_method q = ''DELETE'') (sent_requests (new_events s s2)) = [])"
proof (intro conjI impI)
  assume g: "client_get_volume srv c s (get_volume_name v) = (Inr (Scalar PNone), s1)"
  then show "driver_delete_volume srv c s v = (Inr (), s1)"
    by (simp add: driver_delete_volume_def wrap_api_error_def)
  let ?q = "build_request c s ''GET'' (base_url c @ ''/volumes/'' @ get_volume_name v) None None"
  have "snd (client_get_volume srv c s (get_volume_name v)) = s1"
    using g by simp
  then have "s1 = snd (client_request srv c s ''GET''
           (base_url c @ ''/volumes/'' @ get_volume_name v) None None)"
    by (simp add: client_get_volume_def)
  then have "set (sent_requests (new_events s s1)) \<subseteq> {?q}"
    using client_request_sent by simp
  moreover have "req_method ?q \<noteq> ''DELETE''" by simp
  ultimately show "filter (\<lambda>q. req_method q = ''DELETE'') (sent_requests (new_events s s1)) = []"
    by (rule no_delete_among)
next
  assume g: "client_get_snapshot srv c s (get_volume_name (snap_volume sn)) (get_snapshot_name sn)
         = (Inr (Scalar PNone), s2)"
  then show "driver_delete_snapshot srv c s sn = (Inr (), s2)"
    by (simp add: driver_delete_snapshot_def wrap_api_error_def)
  let ?u = "base_url c @ ''/volumes/'' @ get_volume_name (snap_volume sn) @ ''/snapshots/''
              @ get_snapshot_name sn"
  let ?q = "build_request c s ''GET'' ?u None None"
  have "snd (client_get_snapshot srv c s (get_volume_name (snap_volume sn))
               (get_snapshot_name sn)) = s2"
    using g by simp
  then have "s2 = snd (client_request srv c s ''GET'' ?u None None)"
    by (simp add: client_get_snapshot_def)
  then have "set (sent_requests (new_events s s2)) \<subseteq> {?q}"
    using client_request_sent by simp
  moreover have "req_method ?q \<noteq> ''DELETE''" by simp
  ultimately show "filter (\<lambda>q. req_method q = ''DELETE'') (sent_requests (new_events s s2)) = []"
    by (rule no_delete_among)
qed

theorem delete_absent_is_noop_witness:
  "client_get_volume srv_404 demo_client demo_state (get_volume_name demo_volume)
     = (Inr (Scalar PNone),
        demo_state\<lparr>trace := retry_events (build_request demo_client demo_state ''GET''
          ''https://192.168.1.100:443/api/volumes/volume-fake-volume-id'' None None) 3\<rparr>)
   \<and> driver_delete_volume srv_404 demo_client demo_state demo_volume
     = (Inr (),
        demo_state\<lparr>trace := retry_events (build_request demo_client demo_state ''GET''
          ''https://192.168.1.100:443/api/volumes/volume-fake-volume-id'' None None) 3\<rparr>)
   \<and> filter (\<lambda>q. req_method q = ''DELETE'')
        (sent_requests (new_events demo_state
          (demo_state\<lparr>trace := retry_events (build_request demo_client demo_state ''GET''
            ''https://192.168.1.100:443/api/volumes/volume-fake-volume-id'' None None) 3\<rparr>))) = []
   \<and> client_get_snapshot srv_ok_empty demo_client demo_state
        (get_volume_name (snap_volume demo_snapshot)) (get_snapshot_name demo_snapshot)
     = (Inr (Scalar PNone),
        demo_state\<lparr>trace := [Sent (build_request demo_client demo_state ''GET''
          ''https://192.168.1.100:443/api/volumes/volume-fake-volume-id/snapshots/snapshot-fake-snapshot-id''
          None None)]\<rparr>)
   \<and> driver_delete_snapshot srv_ok_empty demo_client demo_state demo_snapshot
     = (Inr (),
        demo_state\<lparr>trace := [Sent (build_request demo_client demo_state ''GET''
          ''https://192.168.1.100:443/api/volumes/volume-fake-volume-id/snapshots/snapshot-fake-snapshot-id''
          None None)]\<rparr>)"
proof -
  let ?s1 = "demo_state\<lparr>trace := retry_events (build_request demo_client demo_state ''GET''
          ''https://192.168.1.100:443/api/volumes/volume-fake-volume-id'' None None) 3\<rparr>"
  let ?s2 = "demo_state\<lparr>trace := [Sent (build_request demo_client demo_state ''GET''
          ''https://192.168.1.100:443/api/volumes/volume-fake-volume-id/snapshots/snapshot-fake-snapshot-id''
          None None)]\<rparr>"
  have g1: "client_get_volume srv_404 demo_client demo_state (get_volume_name demo_volume)
     = (Inr (Scalar PNone), ?s1)"
    by code_simp
  have g2: "client_get_snapshot srv_ok_empty demo_client demo_state
        (get_volume_name (snap_volume demo_snapshot)) (get_snapshot_name demo_snapshot)
     = (Inr (Scalar PNone), ?s2)"
    by code_simp
  from delete_absent_is_noop [where srv = srv_404 and c = demo_client and s = demo_state
      and v = demo_volume and ?s1.0 = ?s1] g1
  have r1: "driver_delete_volume srv_404 demo_client demo_state demo_volume = (Inr (), ?s1)
      \<and> filter (\<lambda>q. req_method q = ''DELETE'') (sent_requests (new_events demo_state ?s1)) = []"
    by blast
  from delete_absent_is_noop [where srv = srv_ok_empty and c = demo_client and s = demo_state
      and sn = demo_snapshot and ?s2.0 = ?s2] g2
  have r2: "driver_delete_snapshot srv_ok_empty demo_client demo_state demo_snapshot
      = (Inr (), ?s2)"
    by blast
  from g1 r1 g2 r2 show ?thesis by blast
qed

text \<open>
  Claim C6 (idempotent export removal). When the lookup of the target by its name returns
  \<^verbatim>\<open>None\<close>, \<^verbatim>\<open>remove_export\<close> returns normally in the state the lookup left,
  and no request sent since the call began is a \<^verbatim>\<open>DELETE\<close>.
\<close>

theorem remove_export_absent_is_noop:
  "client_get_iscsi_target_by_name srv c s (get_target_name v) = (Inr (Scalar PNone), s1)
   \<Longrightarrow> driver_remove_export srv c s v = (Inr (), s1)
       \<and> filter (\<lambda>q. req_method q = ''DELETE'') (sent_requests (new_events s s1)) = []"
proof
  assume g: "client_get_iscsi_target_by_name srv c s (get_target_name v) = (Inr (Scalar PNone), s1)"
  then show "driver_remove_export srv c s v = (Inr (), s1)"
    by (simp add: driver_remove_export_def wrap_api_error_def)
  let ?q = "build_request c s ''GET'' (base_url c @ ''/iscsi/targets'') None
              (Some [(''name'', PStr (get_target_name v))])"
  have "snd (client_get_iscsi_target_by_name srv c s (get_target_name v)) = s1"
    using g by simp
  then have "s1 = snd (client_request srv c s ''GET'' (base_url c @ ''/iscsi/targets'') None
              (Some [(''name'', PStr (get_target_name v))]))"
    by (simp add: snd_client_get_iscsi_target_by_name)
  then have "set (sent_requests (new_events s s1)) \<subseteq> {?q}"
    using client_request_sent by simp
  moreover have "req_method ?q \<noteq> ''DELETE''" by simp
  ultimately show "filter (\<lambda>q. req_method q = ''DELETE'') (sent_requests (new_events s s1)) = []"
    by (rule no_delete_among)
qed

theorem remove_export_absent_is_noop_witness:
  "client_get_iscsi_target_by_name srv_no_targets demo_client demo_state
       (get_target_name demo_volume)
     = (Inr (Scalar PNone),
        demo_state\<lparr>trace := [Sent (build_request demo_client demo_state ''GET''
          ''https://192.168.1.100:443/api/iscsi/targets'' None
          (Some [(''name'', PStr ''target-fake-volume-id'')]))]\<rparr>)
   \<and> driver_remove_export srv_no_targets demo_client demo_state demo_volume
     = (Inr (),
        demo_state\<lparr>trace := [Sent (build_request demo_client demo_state ''GET''
          ''https://192.168.1.100:443/api/iscsi/targets'' None
          (Some [(''name'', PStr ''target-fake-volume-id'')]))]\<rparr>)
   \<and> filter (\<lambda>q. req_method q = ''DELETE'')
        (sent_requests (new_events demo_state
          (demo_state\<lparr>trace := [Sent (build_request demo_client demo_state ''GET''
            ''https://192.168.1.100:443/api/iscsi/targets'' None
            (Some [(''name'', PStr ''target-fake-volume-id'')]))]\<rparr>))) = []"
proof -
  let ?s1 = "demo_state\<lparr>trace := [Sent (build_request demo_client demo_state ''GET''
          ''https://192.168.1.100:443/api/iscsi/targets'' None
          (Some [(''name'', PStr ''target-fake-volume-id'')]))]\<rparr>"
  have g: "client_get_iscsi_target_by_name srv_no_targets demo_client demo_state
       (get_target_name demo_volume) = (Inr (Scalar PNone), ?s1)"
    by code_simp
  from remove_export_absent_is_noop [where srv = srv_no_targets, OF g] g
  show ?thesis by blast
qed

section \<open>The location codec\<close>

text \<open>Splitting undoes joining when the separator does not occur in the parts, and
  \<^verbatim>\<open>int(str(i)) == i\<close>.\<close>

lemma py_split_nonempty [simp]: "py_split c s \<noteq> []"
  by (induction s) (auto split: list.splits)

lemma py_split_no_sep: "c \<notin> set s \<Longrightarrow> py_split c s = [s]"
  by (induction s) (auto split: list.splits)

lemma py_split_append: "c \<notin> set a \<Longrightarrow> py_split c (a @ c # b) = a # py_split c b"
  by (induction a) (auto split: list.splits)

lemma py_split_join:
  "ps \<noteq> [] \<Longrightarrow> \<forall>p\<in>set ps. c \<notin> set p \<Longrightarrow> py_split c (py_join [c] ps) = ps"
proof (induction "[c]" ps rule: py_join.induct)
  case 1
  then show ?case by simp
next
  case (2 x)
  then show ?case by (simp add: py_split_no_sep)
next
  case (3 x y ys)
  then show ?case by (simp add: py_split_append)
qed

lemma set_py_join: "set (py_join sep ps) \<subseteq> set sep \<union> (\<Union>p\<in>set ps. set p)"
  by (induction sep ps rule: py_join.induct) auto

lemma of_char_digit_char: "d < 10 \<Longrightarrow> (of_char (digit_char d) :: nat) = 48 + d"
  by (simp add: digit_char_def)

lemma is_digit_digit_char: "d < 10 \<Longrightarrow> is_digit (digit_char d)"
  by (simp add: is_digit_def of_char_digit_char)

lemma digit_val_digit_char: "d < 10 \<Longrightarrow> digit_val (digit_char d) = d"
  by (simp add: digit_val_def of_char_digit_char)

lemma str_nat_digits: "\<forall>ch\<in>set (str_nat n). is_digit ch"
proof (induction n rule: str_nat.induct)
  case (1 n)
  show ?case
  proof (cases "n < 10")
    case True
    then show ?thesis by (simp add: str_nat.simps [of n] is_digit_digit_char)
  next
    case False
    with 1 show ?thesis by (simp add: str_nat.simps [of n] is_digit_digit_char)
  qed
qed

lemma str_nat_nonempty: "str_nat n \<noteq> []"
  by (simp add: str_nat.simps [of n])

lemma foldl_str_nat:
  "foldl (\<lambda>a ch. 10 * a + digit_val ch) 0 (str_nat n) = n"
proof (induction n rule: str_nat.induct)
  case (1 n)
  show ?case
  proof (cases "n < 10")
    case True
    then show ?thesis by (simp add: str_nat.simps [of n] digit_val_digit_char)
  next
    case False
    with 1 show ?thesis by (simp add: str_nat.simps [of n] digit_val_digit_char)
  qed
qed

lemma int_body_digits:
  "\<forall>ch\<in>set ds. is_digit ch \<Longrightarrow> ds \<noteq> []
   \<Longrightarrow> int_body acc prev ds = Some (foldl (\<lambda>a ch. 10 * a + digit_val ch) acc ds)"
proof (induction ds arbitrary: acc prev)
  case Nil
  then show ?case by simp
next
  case (Cons c cs)
  then have dc: "is_digit c" and dcs: "\<forall>ch\<in>set cs. is_digit ch" by simp_all
  show ?case
  proof (cases "cs = []")
    case True
    with dc show ?thesis by simp
  next
    case False
    from Cons.IH [OF dcs False, of "10 * acc + digit_val c" True] dc
    show ?thesis by simp
  qed
qed

lemma int_body_str_nat: "int_body 0 prev (str_nat n) = Some n"
  by (simp add: int_body_digits str_nat_digits str_nat_nonempty foldl_str_nat)

lemma digit_not_space: "is_digit ch \<Longrightarrow> \<not> is_space ch"
  by (auto simp add: is_digit_def is_space_def Let_def)

lemma py_strip_id: "\<forall>ch\<in>set s. \<not> is_space ch \<Longrightarrow> py_strip s = s"
proof -
  assume a: "\<forall>ch\<in>set s. \<not> is_space ch"
  have keep: "dropWhile is_space xs = xs" if "\<forall>ch\<in>set xs. \<not> is_space ch" for xs
    using that by (cases xs) auto
  from a have "dropWhile is_space s = s" by (rule keep)
  moreover from a have "\<forall>ch\<in>set (rev s). \<not> is_space ch" by simp
  then have "dropWhile is_space (rev s) = rev s" by (rule keep)
  ultimately show ?thesis by (simp add: py_strip_def)
qed

lemma digit_chars:
  "is_digit ch \<Longrightarrow> ch \<noteq> CHR ''-'' \<and> ch \<noteq> CHR ''+'' \<and> ch \<noteq> CHR '' '' \<and> ch \<noteq> CHR '';''"
  by (auto simp add: is_digit_def)

lemma py_int_str_nat: "py_int (str_nat n) = Some (int n)"
proof -
  obtain c cs where s: "str_nat n = c # cs" using str_nat_nonempty by (cases "str_nat n") auto
  have d: "\<forall>ch\<in>set (str_nat n). is_digit ch" by (rule str_nat_digits)
  then have strip: "py_strip (str_nat n) = str_nat n" by (simp add: py_strip_id digit_not_space)
  from d s have "is_digit c" by simp
  then have ne: "c \<noteq> CHR ''-''" "c \<noteq> CHR ''+''" using digit_chars by blast+
  have "py_int (str_nat n) = map_option int (int_body 0 False (str_nat n))"
    using ne strip s by (simp add: py_int_def del: int_body.simps)
  then show ?thesis by (simp add: int_body_str_nat)
qed

lemma minus_not_space: "\<not> is_space CHR ''-''"
  by (simp add: is_space_def)

lemma py_int_str_int: "py_int (str_int i) = Some i"
proof (cases "i < 0")
  case False
  then show ?thesis by (simp add: str_int_def py_int_str_nat)
next
  case True
  let ?s = "CHR ''-'' # str_nat (nat (- i))"
  have "\<forall>ch\<in>set ?s. \<not> is_space ch"
    using str_nat_digits digit_not_space minus_not_space by auto
  then have "py_strip ?s = ?s" by (rule py_strip_id)
  then show ?thesis using True by (simp add: str_int_def py_int_def int_body_str_nat)
qed

lemma str_int_no_space: "CHR '' '' \<notin> set (str_int i)"
  using str_nat_digits digit_chars by (auto simp add: str_int_def)

text \<open>
  Claim C2, as stated, fails: the separators are not escaped. An IQN with a space in it
  shifts the fields (here the decoded IQN is \<open>a\<close> and the decoded LUN is \<open>1\<close>, or the
  LUN field does not parse), and a portal with a semicolon in it comes back as two portals.
\<close>

theorem location_round_trip_counterexample:
  "decode_location (encode_location [''p''] (PStr ''a 1'') (PInt 0)) = Inr ([''p''], ''a'', 1)
   \<and> decode_location (encode_location [''10.0.0.1:3260''] (PStr ''iqn a'') (PInt 0))
       = Inl ValueError
   \<and> decode_location (encode_location [''10.0.0.1:3260;10.0.0.2:3260'']
         (PStr ''iqn.2004-08.com.qsan:t1'') (PInt 0))
       = Inr ([''10.0.0.1:3260'', ''10.0.0.2:3260''], ''iqn.2004-08.com.qsan:t1'', 0)"
  by code_simp

text \<open>
  Claim C2, amended. For every non-empty list of portals none of which contains a space or a
  semicolon, every IQN that contains no space, and every integer LUN (in particular every
  LUN \<open>\<ge> 0\<close>), decoding the encoded location gives back exactly the portals, the IQN and
  the LUN.
\<close>

theorem location_round_trip:
  assumes "portals \<noteq> []"
    and "\<forall>p\<in>set portals. CHR '' '' \<notin> set p \<and> CHR '';'' \<notin> set p"
    and "CHR '' '' \<notin> set iqn"
  shows "decode_location (encode_location portals (PStr iqn) (PInt lun)) = Inr (portals, iqn, lun)"
proof -
  let ?J = "py_join '';'' portals"
  have J: "CHR '' '' \<notin> set ?J" using set_py_join [of "'';''" portals] assms(2) by auto
  have "py_split CHR '' '' (?J @ CHR '' '' # (iqn @ CHR '' '' # str_int lun))
          = ?J # py_split CHR '' '' (iqn @ CHR '' '' # str_int lun)"
    using J by (rule py_split_append)
  also have "py_split CHR '' '' (iqn @ CHR '' '' # str_int lun)
          = iqn # py_split CHR '' '' (str_int lun)"
    using assms(3) by (rule py_split_append)
  also have "py_split CHR '' '' (str_int lun) = [str_int lun]"
    using str_int_no_space by (rule py_split_no_sep)
  finally have parts: "py_split CHR '' '' (encode_location portals (PStr iqn) (PInt lun))
      = [?J, iqn, str_int lun]"
    by (simp add: encode_location_def)
  have "py_split CHR '';'' ?J = portals"
    using assms(1,2) py_split_join [of portals "CHR '';''"] by simp
  then show ?thesis by (simp add: decode_location_def parts py_int_str_int)
qed

theorem location_round_trip_witness:
  "encode_location [''10.0.0.1:3260'', ''10.0.0.2:3260''] (PStr ''iqn.2004-08.com.qsan:t1'')
       (PInt 0)
     = ''10.0.0.1:3260;10.0.0.2:3260 iqn.2004-08.com.qsan:t1 0''
   \<and> decode_location (encode_location [''10.0.0.1:3260'', ''10.0.0.2:3260'']
         (PStr ''iqn.2004-08.com.qsan:t1'') (PInt 0))
     = Inr ([''10.0.0.1:3260'', ''10.0.0.2:3260''], ''iqn.2004-08.com.qsan:t1'', 0)"
proof -
  have h1: "[''10.0.0.1:3260'', ''10.0.0.2:3260''] \<noteq> []" by simp
  have h2: "\<forall>p\<in>set [''10.0.0.1:3260'', ''10.0.0.2:3260''].
              CHR '' '' \<notin> set p \<and> CHR '';'' \<notin> set p"
    by simp
  have h3: "CHR '' '' \<notin> set ''iqn.2004-08.com.qsan:t1''" by simp
  have e: "encode_location [''10.0.0.1:3260'', ''10.0.0.2:3260'']
        (PStr ''iqn.2004-08.com.qsan:t1'') (PInt 0)
      = ''10.0.0.1:3260;10.0.0.2:3260 iqn.2004-08.com.qsan:t1 0''"
    by code_simp
  from location_round_trip [OF h1 h2 h3, of 0] e show ?thesis by blast
qed

section \<open>Multipath properties\<close>

lemma add_chap_keeps [simp]:
  "target_iqn (add_chap a p) = target_iqn p"
  "target_lun (add_chap a p) = target_lun p"
  "target_portal (add_chap a p) = target_portal p"
  "target_portals (add_chap a p) = target_portals p"
  "target_iqns (add_chap a p) = target_iqns p"
  "target_luns (add_chap a p) = target_luns p"
  by (simp_all add: add_chap_def split: option.splits list.splits)

lemma decode_location_portals: "decode_location loc = Inr (portals, iqn, lun) \<Longrightarrow> portals \<noteq> []"
  by (auto simp add: decode_location_def split: list.splits option.splits)

lemma decode_location_empty: "decode_location [] = Inl IndexError"
  by (simp add: decode_location_def)

text \<open>
  Claim C7 (multipath expansion). Whenever the persisted location of a volume decodes to
  portals, IQN and LUN, \<^verbatim>\<open>_get_iscsi_properties\<close> returns properties with that IQN and
  LUN; there is at least one portal; with more than one portal the three multipath arrays
  are present, as long as the portal list, the IQN and the LUN repeated at every position;
  with exactly one portal none of the three is present.
\<close>

theorem multipath_expansion:
  assumes "provider_location v = Some loc"
    and "decode_location loc = Inr (portals, iqn, lun)"
  shows "\<exists>props. get_iscsi_properties v = Inr props
           \<and> target_iqn props = iqn \<and> target_lun props = lun
           \<and> 1 \<le> length portals
           \<and> (1 < length portals \<longrightarrow>
                 target_portals props = Some portals
                 \<and> target_iqns props = Some (replicate (length portals) iqn)
                 \<and> target_luns props = Some (replicate (length portals) lun))
           \<and> (length portals = 1 \<longrightarrow>
                 target_portals props = None \<and> target_iqns props = None
                 \<and> target_luns props = None)"
proof -
  have ne: "loc \<noteq> []" using assms(2) decode_location_empty by auto
  have "portals \<noteq> []" using assms(2) by (rule decode_location_portals)
  then have len: "1 \<le> length portals" by (cases portals) simp_all
  show ?thesis
    using assms ne len by (simp add: get_iscsi_properties_def)
qed

theorem multipath_expansion_witness:
  "provider_location exported_volume
     = Some ''10.0.0.1:3260;10.0.0.2:3260 iqn.2004-08.com.qsan:t1 0''
   \<and> decode_location ''10.0.0.1:3260;10.0.0.2:3260 iqn.2004-08.com.qsan:t1 0''
     = Inr ([''10.0.0.1:3260'', ''10.0.0.2:3260''], ''iqn.2004-08.com.qsan:t1'', 0)
   \<and> (\<exists>props. get_iscsi_properties exported_volume = Inr props
         \<and> target_portals props = Some [''10.0.0.1:3260'', ''10.0.0.2:3260'']
         \<and> target_iqns props = Some [''iqn.2004-08.com.qsan:t1'', ''iqn.2004-08.com.qsan:t1'']
         \<and> target_luns props = Some [0, 0])
   \<and> provider_location single_portal_volume
     = Some ''10.0.0.1:3260 iqn.2004-08.com.qsan:t1 0''
   \<and> decode_location ''10.0.0.1:3260 iqn.2004-08.com.qsan:t1 0''
     = Inr ([''10.0.0.1:3260''], ''iqn.2004-08.com.qsan:t1'', 0)
   \<and> (\<exists>props. get_iscsi_properties single_portal_volume = Inr props
         \<and> target_portals props = None \<and> target_iqns props = None
         \<and> target_luns props = None)"
proof -
  have a1: "provider_location exported_volume
      = Some ''10.0.0.1:3260;10.0.0.2:3260 iqn.2004-08.com.qsan:t1 0''"
    by (simp add: exported_volume_def)
  have a2: "decode_location ''10.0.0.1:3260;10.0.0.2:3260 iqn.2004-08.com.qsan:t1 0''
      = Inr ([''10.0.0.1:3260'', ''10.0.0.2:3260''], ''iqn.2004-08.com.qsan:t1'', 0)"
    by code_simp
  have b1: "provider_location single_portal_volume
      = Some ''10.0.0.1:3260 iqn.2004-08.com.qsan:t1 0''"
    by (simp add: single_portal_volume_def)
  have b2: "decode_location ''10.0.0.1:3260 iqn.2004-08.com.qsan:t1 0''
      = Inr ([''10.0.0.1:3260''], ''iqn.2004-08.com.qsan:t1'', 0)"
    by code_simp
  from multipath_expansion [OF a1 a2]
  have r1: "\<exists>props. get_iscsi_properties exported_volume = Inr props
         \<and> target_portals props = Some [''10.0.0.1:3260'', ''10.0.0.2:3260'']
         \<and> target_iqns props = Some [''iqn.2004-08.com.qsan:t1'', ''iqn.2004-08.com.qsan:t1'']
         \<and> target_luns props = Some [0, 0]"
    by (auto simp add: numeral_2_eq_2)
  from multipath_expansion [OF b1 b2]
  have r2: "\<exists>props. get_iscsi_properties single_portal_volume = Inr props
         \<and> target_portals props = None \<and> target_iqns props = None
         \<and> target_luns props = None"
    by auto
  from a1 a2 r1 b1 b2 r2 show ?thesis by blast
qed

section \<open>Sequences of requests\<close>

text \<open>Calls compose: what two calls in a row send is what the first sends followed by
  what the second sends. A call that returns something other than \<^verbatim>\<open>None\<close> ran with an
  open session and a positive budget, and a call that runs so sends its request at least
  once.\<close>

lemma sends_only_iff:
  "sends_only P s s' \<longleftrightarrow>
     (\<exists>evs. trace s' = trace s @ evs \<and> list_all P (sent_requests evs))
     \<and> session s' = session s \<and> session_token s' = session_token s"
proof
  assume a: "sends_only P s s'"
  then have "take (length (trace s)) (trace s') = trace s" by (simp add: sends_only_def)
  then have "trace s' = trace s @ drop (length (trace s)) (trace s')"
    by (metis append_take_drop_id)
  with a show "(\<exists>evs. trace s' = trace s @ evs \<and> list_all P (sent_requests evs))
     \<and> session s' = session s \<and> session_token s' = session_token s"
    unfolding sends_only_def new_events_def by blast
next
  assume "(\<exists>evs. trace s' = trace s @ evs \<and> list_all P (sent_requests evs))
     \<and> session s' = session s \<and> session_token s' = session_token s"
  then show "sends_only P s s'"
    by (auto simp add: sends_only_def new_events_def)
qed

lemma sends_only_refl [simp]: "sends_only P s s"
  by (simp add: sends_only_iff)

lemma sends_only_trans:
  "sends_only P s s1 \<Longrightarrow> sends_only P s1 s2 \<Longrightarrow> sends_only P s s2"
  unfolding sends_only_iff by (auto simp add: list_all_append)

lemma sends_only_new_events:
  "sends_only P s s1 \<Longrightarrow> sends_only Q s1 s2
   \<Longrightarrow> new_events s s2 = new_events s s1 @ new_events s1 s2"
  unfolding sends_only_iff by (auto simp add: new_events_def)

lemma client_request_sends_only:
  "P (build_request c s m u data ps) \<Longrightarrow> sends_only P s (snd (client_request srv c s m u data ps))"
proof -
  assume p: "P (build_request c s m u data ps)"
  obtain r tr where
    ra: "request_attempts srv (session s) (build_request c s m u data ps)
           (retry_count c) 0 (nat (retry_count c)) (trace s) = (r, tr)"
    by (cases "request_attempts srv (session s) (build_request c s m u data ps)
           (retry_count c) 0 (nat (retry_count c)) (trace s)") auto
  from request_attempts_trace [OF ra] obtain evs
    where evs: "tr = trace s @ evs" "set (sent_requests evs) \<subseteq> {build_request c s m u data ps}"
    by blast
  from evs(2) p have "list_all P (sent_requests evs)" by (auto simp add: list_all_iff)
  with ra evs(1) show ?thesis by (auto simp add: sends_only_iff client_request_def)
qed

lemma request_attempts_value:
  "request_attempts srv sess req rc a k tr = (Inr v, tr') \<Longrightarrow> v \<noteq> Scalar PNone
   \<Longrightarrow> sess \<noteq> None \<and> k \<noteq> 0"
  by (cases k; cases sess) auto

lemma client_request_value:
  "client_request srv c s m u data ps = (Inr v, s') \<Longrightarrow> v \<noteq> Scalar PNone
   \<Longrightarrow> session s \<noteq> None \<and> 1 \<le> retry_count c"
proof -
  assume a: "client_request srv c s m u data ps = (Inr v, s')" and v: "v \<noteq> Scalar PNone"
  obtain tr where
    "request_attempts srv (session s) (build_request c s m u data ps)
           (retry_count c) 0 (nat (retry_count c)) (trace s) = (Inr v, tr)"
    using a by (auto simp add: client_request_def split: prod.splits)
  from request_attempts_value [OF this v] show ?thesis by auto
qed

lemma request_attempts_first:
  "request_attempts srv (Some vf) req rc a (Suc k) tr = (r, tr')
   \<Longrightarrow> \<exists>evs. tr' = tr @ Sent req # evs"
proof -
  assume a: "request_attempts srv (Some vf) req rc a (Suc k) tr = (r, tr')"
  show ?thesis
  proof (cases "attempt_outcome (srv (count_sent tr) req) (req_url req)")
    case (Inr v)
    with a show ?thesis by auto
  next
    case (Inl e)
    show ?thesis
    proof (cases "int a < rc - 1")
      case True
      with a Inl
      have "request_attempts srv (Some vf) req rc (Suc a) k (tr @ [Sent req, Slept 1]) = (r, tr')"
        by simp
      from request_attempts_trace [OF this] obtain evs
        where "tr' = (tr @ [Sent req, Slept 1]) @ evs" by blast
      then show ?thesis by simp
    next
      case False
      with a Inl show ?thesis by auto
    qed
  qed
qed

lemma client_request_sends_first:
  assumes "session s \<noteq> None" and "1 \<le> retry_count c"
  shows "build_request c s m u data ps
           \<in> set (sent_requests (new_events s (snd (client_request srv c s m u data ps))))"
proof -
  obtain vf where vf: "session s = Some vf" using assms(1) by auto
  obtain k where k: "nat (retry_count c) = Suc k" using assms(2) by (cases "nat (retry_count c)") auto
  obtain r tr where
    ra: "request_attempts srv (Some vf) (build_request c s m u data ps)
           (retry_count c) 0 (Suc k) (trace s) = (r, tr)"
    by (cases "request_attempts srv (Some vf) (build_request c s m u data ps)
           (retry_count c) 0 (Suc k) (trace s)") auto
  from request_attempts_first [OF ra] obtain evs
    where "tr = trace s @ Sent (build_request c s m u data ps) # evs" by blast
  with ra vf k show ?thesis by (simp add: client_request_def new_events_def)
qed

section \<open>Export creation and CHAP\<close>

lemma client_request_sends_method:
  "sends_only (\<lambda>q. req_method q = m) s (snd (client_request srv c s m u data ps))"
  by (rule client_request_sends_only) simp

lemma create_target_sends:
  assumes "client_create_iscsi_target srv c s tn iq = (r, s1)"
  shows "sends_only (\<lambda>q. req_method q = ''POST'') s s1"
proof -
  have "snd (client_create_iscsi_target srv c s tn iq) = s1" using assms by simp
  then show ?thesis
    unfolding client_create_iscsi_target_def
    using client_request_sends_method [of "''POST''" s srv c] by blast
qed

lemma map_volume_sends:
  assumes "client_map_volume_to_target srv c s vn tid lun = (r, s1)"
  shows "sends_only (\<lambda>q. req_method q = ''POST'') s s1"
proof -
  have "snd (client_map_volume_to_target srv c s vn tid lun) = s1" using assms by simp
  then show ?thesis
    unfolding client_map_volume_to_target_def
    using client_request_sends_method [of "''POST''" s srv c] by blast
qed

lemma chap_step_skipped:
  "\<not> truthy_str (qsan_chap_username conf) \<or> \<not> truthy_str (qsan_chap_password conf)
   \<Longrightarrow> chap_step srv c conf s tid = (Inr None, s)"
  by (cases "qsan_chap_username conf"; cases "qsan_chap_password conf")
     (auto simp add: chap_step_def)

text \<open>How \<^verbatim>\<open>create_export\<close> can end: with an exception before the CHAP block, having
  sent only \<^verbatim>\<open>POST\<close> requests; or through the CHAP block, whose state is the final
  one.\<close>

lemma create_export_body_cases:
  assumes "create_export_body srv c conf s vn tn = (r, s')"
  obtains
    (early) s1 where "sends_only (\<lambda>q. req_method q = ''POST'') s s1" and "s' = s1"
      and "\<exists>e. r = Inl e"
  | (chap) target_info s1 target_id target_iqn mapping_info s2 lun_id a
    where "client_create_iscsi_target srv c s tn None = (Inr target_info, s1)"
      and "dict_get target_info ''id'' PNone = Inr target_id"
      and "dict_get target_info ''iqn'' PNone = Inr target_iqn"
      and "client_map_volume_to_target srv c s1 vn target_id PNone = (Inr mapping_info, s2)"
      and "dict_get mapping_info ''lun_id'' (PInt 0) = Inr lun_id"
      and "chap_step srv c conf s2 target_id = (a, s')"
      and "(\<exists>e. a = Inl e \<and> r = Inl e)
           \<or> (\<exists>auth. a = Inr auth
                \<and> ((\<exists>e. r = Inl e)
                    \<or> (\<exists>portals. r = Inr \<lparr> export_location =
                                          encode_location portals target_iqn lun_id,
                                        export_auth = auth \<rparr>)))"
proof -
  obtain r1 s1 where c1: "client_create_iscsi_target srv c s tn None = (r1, s1)"
    by (cases "client_create_iscsi_target srv c s tn None") auto
  note so1 = create_target_sends [OF c1]
  show ?thesis
  proof (cases r1)
    case (Inl e)
    with assms c1 have "s' = s1" "r = Inl e" by (simp_all add: create_export_body_def)
    with so1 show ?thesis using early by blast
  next
    case ti: (Inr target_info)
    show ?thesis
    proof (cases "dict_get target_info ''id'' PNone")
      case (Inl e)
      with assms c1 ti have "s' = s1" "r = Inl e" by (simp_all add: create_export_body_def)
      with so1 show ?thesis using early by blast
    next
      case tid: (Inr target_id)
      show ?thesis
      proof (cases "dict_get target_info ''iqn'' PNone")
        case (Inl e)
        with assms c1 ti tid have "s' = s1" "r = Inl e"
          by (simp_all add: create_export_body_def)
        with so1 show ?thesis using early by blast
      next
        case tiqn: (Inr target_iqn)
        obtain r2 s2 where c2: "client_map_volume_to_target srv c s1 vn target_id PNone = (r2, s2)"
          by (cases "client_map_volume_to_target srv c s1 vn target_id PNone") auto
        have so2: "sends_only (\<lambda>q. req_method q = ''POST'') s s2"
          using so1 map_volume_sends [OF c2] by (rule sends_only_trans)
        show ?thesis
        proof (cases r2)
          case (Inl e)
          with assms c1 ti tid tiqn c2 have "s' = s2" "r = Inl e"
            by (simp_all add: create_export_body_def)
          with so2 show ?thesis using early by blast
        next
          case mi: (Inr mapping_info)
          show ?thesis
          proof (cases "dict_get mapping_info ''lun_id'' (PInt 0)")
            case (Inl e)
            with assms c1 ti tid tiqn c2 mi have "s' = s2" "r = Inl e"
              by (simp_all add: create_export_body_def)
            with so2 show ?thesis using early by blast
          next
            case lun: (Inr lun_id)
            obtain a s3 where c3: "chap_step srv c conf s2 target_id = (a, s3)"
              by (cases "chap_step srv c conf s2 target_id") auto
            from assms c1 ti tid tiqn c2 mi lun c3 have s3: "s' = s3"
              by (simp add: create_export_body_def split: sum.splits)
            from assms c1 ti tid tiqn c2 mi lun c3
            have "(\<exists>e. a = Inl e \<and> r = Inl e)
                \<or> (\<exists>auth. a = Inr auth
                     \<and> ((\<exists>e. r = Inl e)
                         \<or> (\<exists>portals. r = Inr \<lparr> export_location =
                                          encode_location portals target_iqn lun_id,
                                        export_auth = auth \<rparr>)))"
              by (auto simp add: create_export_body_def split: sum.splits)
            with c1 ti tid tiqn c2 mi lun c3 s3 show ?thesis using chap by blast
          qed
        qed
      qed
    qed
  qed
qed

lemma fst_wrap_api_error_Inr [simp]: "fst (wrap_api_error p r) = Inr x \<longleftrightarrow> fst r = Inr x"
  by (simp add: wrap_api_error_def split: prod.splits sum.splits exn.splits)

lemma sends_only_no_put:
  "sends_only (\<lambda>q. req_method q = ''POST'') s s'
   \<Longrightarrow> filter (\<lambda>q. req_method q = ''PUT'') (sent_requests (new_events s s')) = []"
  by (auto simp add: sends_only_def list_all_iff filter_empty_conv)

lemma dict_get_Inr: "dict_get x k d = Inr y \<Longrightarrow> x \<noteq> Scalar PNone"
  by (cases x) auto

text \<open>
  Claim C4 (CHAP gating). With CHAP enabled and the username or the password unset
  (\<^verbatim>\<open>None\<close>, or empty: the code tests truthiness), the CHAP block does nothing in any
  state, \<^verbatim>\<open>create_export\<close> sends no \<^verbatim>\<open>PUT\<close> request, that is no CHAP setting, and
  an export it returns has no \<^verbatim>\<open>provider_auth\<close>. With CHAP enabled and both
  credentials set to non-empty strings, an export that \<^verbatim>\<open>create_export\<close> returns has
  \<^verbatim>\<open>provider_auth = "CHAP <username> <password>"\<close>, and the request that sets these
  credentials on the target was sent during the call.
\<close>

theorem chap_gating:
  "(qsan_chap_enabled conf
      \<and> (\<not> truthy_str (qsan_chap_username conf) \<or> \<not> truthy_str (qsan_chap_password conf)) \<longrightarrow>
      (\<forall>s2 tid. chap_step srv c conf s2 tid = (Inr None, s2))
      \<and> filter (\<lambda>q. req_method q = ''PUT'')
          (sent_requests (new_events s (snd (driver_create_export srv c conf s v)))) = []
      \<and> (\<forall>ex. fst (driver_create_export srv c conf s v) = Inr ex \<longrightarrow> export_auth ex = None))
   \<and> (qsan_chap_enabled conf
      \<and> qsan_chap_username conf = Some u \<and> u \<noteq> []
      \<and> qsan_chap_password conf = Some p \<and> p \<noteq> []
      \<and> driver_create_export srv c conf s v = (Inr ex', s') \<longrightarrow>
      export_auth ex' = Some (''CHAP '' @ u @ '' '' @ p)
      \<and> (\<exists>q \<in> set (sent_requests (new_events s s')).
            req_method q = ''PUT''
            \<and> req_json q = Some [(''username'', PStr u), (''password'', PStr p)]
            \<and> (\<exists>tid. req_url q = base_url c @ ''/iscsi/targets/'' @ py_str tid @ ''/chap'')))"
proof (intro conjI impI)
  assume a: "qsan_chap_enabled conf
      \<and> (\<not> truthy_str (qsan_chap_username conf) \<or> \<not> truthy_str (qsan_chap_password conf))"
  then have skip: "chap_step srv c conf s2 tid = (Inr None, s2)" for s2 tid
    using chap_step_skipped by blast
  then show "\<forall>s2 tid. chap_step srv c conf s2 tid = (Inr None, s2)" by blast
  obtain r s1 where b: "create_export_body srv c conf s (get_volume_name v) (get_target_name v)
      = (r, s1)"
    by (cases "create_export_body srv c conf s (get_volume_name v) (get_target_name v)") auto
  from b have "sends_only (\<lambda>q. req_method q = ''POST'') s s1
      \<and> (\<forall>ex. r = Inr ex \<longrightarrow> export_auth ex = None)"
  proof (cases rule: create_export_body_cases)
    case (early s1')
    then show ?thesis by auto
  next
    case (chap target_info t1 target_id target_iqn mapping_info t2 lun_id a')
    from chap(6) skip have e: "a' = Inr None" "s1 = t2" by simp_all
    have "sends_only (\<lambda>q. req_method q = ''POST'') s t2"
      using create_target_sends [OF chap(1)] map_volume_sends [OF chap(4)]
      by (rule sends_only_trans)
    with e chap(7) show ?thesis by auto
  qed
  with b show "filter (\<lambda>q. req_method q = ''PUT'')
          (sent_requests (new_events s (snd (driver_create_export srv c conf s v)))) = []"
    and "\<forall>ex. fst (driver_create_export srv c conf s v) = Inr ex \<longrightarrow> export_auth ex = None"
    by (simp_all add: driver_create_export_def sends_only_no_put)
next
  assume a: "qsan_chap_enabled conf
      \<and> qsan_chap_username conf = Some u \<and> u \<noteq> []
      \<and> qsan_chap_password conf = Some p \<and> p \<noteq> []
      \<and> driver_create_export srv c conf s v = (Inr ex', s')"
  then have "fst (wrap_api_error
        (''Failed to create export for volume '' @ get_volume_name v @ '': '')
        (create_export_body srv c conf s (get_volume_name v) (get_target_name v))) = Inr ex'"
    and "snd (wrap_api_error
        (''Failed to create export for volume '' @ get_volume_name v @ '': '')
        (create_export_body srv c conf s (get_volume_name v) (get_target_name v))) = s'"
    by (simp_all add: driver_create_export_def)
  then have b: "create_export_body srv c conf s (get_volume_name v) (get_target_name v)
      = (Inr ex', s')"
    by (simp add: prod_eq_iff)
  from b have "export_auth ex' = Some (''CHAP '' @ u @ '' '' @ p)
      \<and> (\<exists>q \<in> set (sent_requests (new_events s s')).
            req_method q = ''PUT''
            \<and> req_json q = Some [(''username'', PStr u), (''password'', PStr p)]
            \<and> (\<exists>tid. req_url q = base_url c @ ''/iscsi/targets/'' @ py_str tid @ ''/chap''))"
  proof (cases rule: create_export_body_cases)
    case (early s1')
    then show ?thesis by auto
  next
    case (chap target_info t1 target_id target_iqn mapping_info t2 lun_id a')
    let ?url = "base_url c @ ''/iscsi/targets/'' @ py_str target_id @ ''/chap''"
    let ?body = "Some [(''username'', PStr u), (''password'', PStr p)]"
    let ?q = "build_request c t2 ''PUT'' ?url ?body None"
    obtain r3 t3 where c3: "client_set_target_chap srv c t2 target_id u p = (r3, t3)"
      by (cases "client_set_target_chap srv c t2 target_id u p") auto
    from chap(6) a c3 have step: "(a', s') = (case r3 of Inl e \<Rightarrow> (Inl e, t3)
        | Inr r \<Rightarrow> (Inr (Some (''CHAP '' @ u @ '' '' @ p)), t3))"
      by (simp add: chap_step_def split: sum.splits)
    from chap(7) obtain auth where auth: "a' = Inr auth" "export_auth ex' = auth" by auto
    from step auth have au: "auth = Some (''CHAP '' @ u @ '' '' @ p)" and s3: "s' = t3"
      by (auto split: sum.splits)
    have "snd (client_set_target_chap srv c t2 target_id u p) = s'" using c3 s3 by simp
    then have s': "s' = snd (client_request srv c t2 ''PUT'' ?url ?body None)"
      by (simp add: client_set_target_chap_def)
    have so12: "sends_only (\<lambda>q. req_method q = ''POST'') s t2"
      using create_target_sends [OF chap(1)] map_volume_sends [OF chap(4)]
      by (rule sends_only_trans)
    have "target_info \<noteq> Scalar PNone" using chap(2) by (rule dict_get_Inr)
    with chap(1) have open_s: "session s \<noteq> None \<and> 1 \<le> retry_count c"
      unfolding client_create_iscsi_target_def using client_request_value by blast
    from so12 have "session t2 = session s" by (simp add: sends_only_def)
    with open_s have "session t2 \<noteq> None" "1 \<le> retry_count c" by simp_all
    then have "?q \<in> set (sent_requests (new_events t2 s'))"
      unfolding s' by (rule client_request_sends_first)
    moreover have "sends_only (\<lambda>q. req_method q = ''PUT'') t2 s'"
      unfolding s' by (rule client_request_sends_method)
    with so12 have "new_events s s' = new_events s t2 @ new_events t2 s'"
      by (rule sends_only_new_events)
    ultimately have "?q \<in> set (sent_requests (new_events s s'))" by simp
    moreover have "req_method ?q = ''PUT'' \<and> req_json ?q = ?body \<and> req_url ?q = ?url" by simp
    ultimately have "\<exists>q \<in> set (sent_requests (new_events s s')).
            req_method q = ''PUT''
            \<and> req_json q = Some [(''username'', PStr u), (''password'', PStr p)]
            \<and> (\<exists>tid. req_url q = base_url c @ ''/iscsi/targets/'' @ py_str tid @ ''/chap'')"
      by blast
    with auth au show ?thesis by simp
  qed
  then show "export_auth ex' = Some (''CHAP '' @ u @ '' '' @ p)"
    and "\<exists>q \<in> set (sent_requests (new_events s s')).
            req_method q = ''PUT''
            \<and> req_json q = Some [(''username'', PStr u), (''password'', PStr p)]
            \<and> (\<exists>tid. req_url q = base_url c @ ''/iscsi/targets/'' @ py_str tid @ ''/chap'')"
    by blast+
qed

theorem chap_gating_witness:
  "qsan_chap_enabled chap_incomplete_configuration
   \<and> qsan_chap_password chap_incomplete_configuration = None
   \<and> filter (\<lambda>q. req_method q = ''PUT'')
        (sent_requests (new_events demo_state
           (snd (driver_create_export srv_export demo_client chap_incomplete_configuration
                   demo_state demo_volume)))) = []
   \<and> fst (driver_create_export srv_export demo_client chap_incomplete_configuration
             demo_state demo_volume)
       = Inr \<lparr> export_location = ''10.0.0.1:3260;10.0.0.2:3260 iqn.2004-08.com.qsan:t1 0'',
               export_auth = None \<rparr>
   \<and> qsan_chap_enabled chap_configuration
   \<and> qsan_chap_username chap_configuration = Some ''chap_user''
   \<and> qsan_chap_password chap_configuration = Some ''chap_pass''
   \<and> fst (driver_create_export srv_export demo_client chap_configuration demo_state demo_volume)
       = Inr \<lparr> export_location = ''10.0.0.1:3260;10.0.0.2:3260 iqn.2004-08.com.qsan:t1 0'',
               export_auth = Some ''CHAP chap_user chap_pass'' \<rparr>
   \<and> (\<exists>q \<in> set (sent_requests (new_events demo_state
           (snd (driver_create_export srv_export demo_client chap_configuration demo_state
                   demo_volume)))).
         req_method q = ''PUT''
         \<and> req_json q = Some [(''username'', PStr ''chap_user''), (''password'', PStr ''chap_pass'')]
         \<and> (\<exists>tid. req_url q = base_url demo_client @ ''/iscsi/targets/'' @ py_str tid @ ''/chap''))"
proof -
  let ?ex0 = "\<lparr> export_location = ''10.0.0.1:3260;10.0.0.2:3260 iqn.2004-08.com.qsan:t1 0'',
               export_auth = None \<rparr>"
  let ?ex1 = "\<lparr> export_location = ''10.0.0.1:3260;10.0.0.2:3260 iqn.2004-08.com.qsan:t1 0'',
               export_auth = Some ''CHAP chap_user chap_pass'' \<rparr>"
  let ?r0 = "driver_create_export srv_export demo_client chap_incomplete_configuration
               demo_state demo_volume"
  let ?r1 = "driver_create_export srv_export demo_client chap_configuration demo_state
               demo_volume"
  have i: "qsan_chap_enabled chap_incomplete_configuration"
    "qsan_chap_password chap_incomplete_configuration = None"
    by (simp_all add: chap_incomplete_configuration_def)
  then have i': "\<not> truthy_str (qsan_chap_username chap_incomplete_configuration)
      \<or> \<not> truthy_str (qsan_chap_password chap_incomplete_configuration)"
    by simp
  have f0: "fst ?r0 = Inr ?ex0" by code_simp
  have e: "qsan_chap_enabled chap_configuration"
    "qsan_chap_username chap_configuration = Some ''chap_user''"
    "qsan_chap_password chap_configuration = Some ''chap_pass''"
    by (simp_all add: chap_configuration_def)
  have f1: "fst ?r1 = Inr ?ex1" by code_simp
  then have r1: "?r1 = (Inr ?ex1, snd ?r1)" by (simp add: prod_eq_iff)
  have ne: "''chap_user'' \<noteq> []" "''chap_pass'' \<noteq> []" by simp_all
  note T0 = chap_gating [where srv = srv_export and c = demo_client
      and conf = chap_incomplete_configuration and s = demo_state and v = demo_volume]
  note T1 = chap_gating [where srv = srv_export and c = demo_client
      and conf = chap_configuration and s = demo_state and v = demo_volume
      and u = "''chap_user''" and p = "''chap_pass''" and ex' = ?ex1 and s' = "snd ?r1"]
  from T0 i(1) i' have n0: "filter (\<lambda>q. req_method q = ''PUT'')
        (sent_requests (new_events demo_state (snd ?r0))) = []"
    by blast
  from T1 e ne r1 have n1: "\<exists>q \<in> set (sent_requests (new_events demo_state (snd ?r1))).
         req_method q = ''PUT''
         \<and> req_json q = Some [(''username'', PStr ''chap_user''), (''password'', PStr ''chap_pass'')]
         \<and> (\<exists>tid. req_url q = base_url demo_client @ ''/iscsi/targets/'' @ py_str tid @ ''/chap'')"
    by blast
  from i n0 f0 e f1 n1 show ?thesis by blast
qed

section \<open>Connections of volumes without an export\<close>

lemma get_iscsi_properties_unset:
  "\<not> truthy_str (provider_location v)
   \<Longrightarrow> get_iscsi_properties v
       = Inl (VolumeBackendAPIException (''Volume '' @ vol_id v @ '' has no provider_location''))"
  by (simp add: get_iscsi_properties_def)

text \<open>
  Claim C10, as stated, fails: the ACL step runs before the location is looked at, and an
  exception of that step that is not an API error of the add call leaves
  \<^verbatim>\<open>initialize_connection\<close> as it is. With a client that has no session the request
  raises \<^verbatim>\<open>AttributeError\<close>; when the array answers the target lookup with a record
  instead of a list, indexing it raises \<^verbatim>\<open>KeyError\<close>.
\<close>

theorem initialize_connection_unexported_counterexample:
  "provider_location demo_volume = None
   \<and> fst (driver_initialize_connection srv_down demo_client logged_out_state demo_volume
          demo_connector) = Inl AttributeError
   \<and> fst (driver_initialize_connection srv_target_record demo_client demo_state demo_volume
          demo_connector) = Inl KeyError"
  by code_simp

text \<open>
  Claim C10, amended. For every volume whose persisted location is unset or empty,
  \<^verbatim>\<open>initialize_connection\<close> never returns a connection descriptor: it raises. An
  exception of the ACL step is raised unchanged; when the ACL step completes, and in
  particular when the connector carries no initiator, the exception is the backend-API
  error of the location guard, the location is not parsed, and without an initiator
  nothing is sent.
\<close>

theorem initialize_connection_unexported:
  assumes "\<not> truthy_str (provider_location v)"
  shows "(\<exists>e. fst (driver_initialize_connection srv c s v connector) = Inl e)
     \<and> (\<forall>e. fst (add_initiator_step srv c s v connector) = Inl e \<longrightarrow>
           fst (driver_initialize_connection srv c s v connector) = Inl e)
     \<and> (fst (add_initiator_step srv c s v connector) = Inr () \<longrightarrow>
           fst (driver_initialize_connection srv c s v connector)
             = Inl (VolumeBackendAPIException
                      (''Volume '' @ vol_id v @ '' has no provider_location'')))
     \<and> ((case connector of None \<Rightarrow> True | Some d \<Rightarrow> map_of d ''initiator'' = None) \<longrightarrow>
           driver_initialize_connection srv c s v connector
             = (Inl (VolumeBackendAPIException
                       (''Volume '' @ vol_id v @ '' has no provider_location'')), s))"
proof -
  note g = get_iscsi_properties_unset [OF assms]
  obtain r s1 where a: "add_initiator_step srv c s v connector = (r, s1)"
    by (cases "add_initiator_step srv c s v connector") auto
  have 1: "\<exists>e. fst (driver_initialize_connection srv c s v connector) = Inl e"
    using a g by (cases r) (simp_all add: driver_initialize_connection_def)
  have 2: "\<forall>e. fst (add_initiator_step srv c s v connector) = Inl e \<longrightarrow>
           fst (driver_initialize_connection srv c s v connector) = Inl e"
    using a by (cases r) (simp_all add: driver_initialize_connection_def)
  have 3: "fst (add_initiator_step srv c s v connector) = Inr () \<longrightarrow>
           fst (driver_initialize_connection srv c s v connector)
             = Inl (VolumeBackendAPIException
                      (''Volume '' @ vol_id v @ '' has no provider_location''))"
    using a g by (cases r) (simp_all add: driver_initialize_connection_def)
  have 4: "(case connector of None \<Rightarrow> True | Some d \<Rightarrow> map_of d ''initiator'' = None) \<longrightarrow>
           driver_initialize_connection srv c s v connector
             = (Inl (VolumeBackendAPIException
                       (''Volume '' @ vol_id v @ '' has no provider_location'')), s)"
    using g by (cases connector)
      (simp_all add: driver_initialize_connection_def add_initiator_step_def)
  from 1 2 3 4 show ?thesis by blast
qed

theorem initialize_connection_unexported_witness:
  "provider_location demo_volume = None
   \<and> fst (add_initiator_step srv_no_targets demo_client demo_state demo_volume demo_connector)
       = Inr ()
   \<and> fst (driver_initialize_connection srv_no_targets demo_client demo_state demo_volume
          demo_connector)
       = Inl (VolumeBackendAPIException ''Volume fake-volume-id has no provider_location'')
   \<and> provider_location unexported_volume = Some []
   \<and> driver_initialize_connection srv_export demo_client demo_state unexported_volume None
       = (Inl (VolumeBackendAPIException ''Volume fake-volume-id has no provider_location''),
          demo_state)"
proof -
  have a: "provider_location demo_volume = None" by (simp add: demo_volume_def)
  then have a': "\<not> truthy_str (provider_location demo_volume)" by simp
  have b: "provider_location unexported_volume = Some []"
    by (simp add: unexported_volume_def)
  then have b': "\<not> truthy_str (provider_location unexported_volume)" by simp
  have st: "fst (add_initiator_step srv_no_targets demo_client demo_state demo_volume
              demo_connector) = Inr ()"
    by code_simp
  have id1: "vol_id demo_volume = ''fake-volume-id''" by (simp add: demo_volume_def)
  have id2: "vol_id unexported_volume = ''fake-volume-id''"
    by (simp add: unexported_volume_def demo_volume_def)
  from initialize_connection_unexported [OF a', where srv = srv_no_targets and c = demo_client
      and s = demo_state and connector = demo_connector] st
  have r1: "fst (driver_initialize_connection srv_no_targets demo_client demo_state demo_volume
          demo_connector)
       = Inl (VolumeBackendAPIException ''Volume fake-volume-id has no provider_location'')"
    unfolding id1 by simp
  from initialize_connection_unexported [OF b', where srv = srv_export and c = demo_client
      and s = demo_state and connector = None]
  have r2: "driver_initialize_connection srv_export demo_client demo_state unexported_volume None
       = (Inl (VolumeBackendAPIException ''Volume fake-volume-id has no provider_location''),
          demo_state)"
    unfolding id2 by simp
  from a st r1 b r2 show ?thesis by blast
qed

section \<open>Volume sizes\<close>

text \<open>
  Claim C9 (binary gigabytes). For every size \<open>s\<close> in gigabytes, every request that
  \<^verbatim>\<open>create_volume\<close> or \<^verbatim>\<open>extend_volume\<close> sends, in the client and through the
  driver, carries \<open>size = s * 2^30\<close> in its body; the driver's create request also carries
  the configured \<^verbatim>\<open>thin_provision\<close> flag and the pool. With an open session and a
  positive retry count each of the four operations does send that request, whatever the
  array answers. When the array answers the first attempt with a non-error status, the
  operation sends exactly that one request and raises nothing: creating a volume is one
  \<^verbatim>\<open>POST\<close>, extending one is one \<^verbatim>\<open>PUT\<close>.
\<close>

theorem volume_size_in_bytes:
  "(\<forall>q \<in> set (sent_requests (new_events s
         (snd (client_create_volume srv c s pool volume_name size_gb thin)))).
      req_method q = ''POST'' \<and> req_url q = base_url c @ ''/volumes''
      \<and> req_json q = Some [(''pool'', pool), (''name'', PStr volume_name),
                           (''size'', PInt (size_gb * 2 ^ 30)), (''thin_provision'', PBool thin)])
   \<and> (\<forall>q \<in> set (sent_requests (new_events s
         (snd (client_extend_volume srv c s volume_name size_gb)))).
      req_method q = ''PUT'' \<and> req_url q = base_url c @ ''/volumes/'' @ volume_name
      \<and> req_json q = Some [(''size'', PInt (size_gb * 2 ^ 30))])
   \<and> (\<forall>q \<in> set (sent_requests (new_events s (snd (driver_create_volume srv c conf s v)))).
      req_method q = ''POST'' \<and> req_url q = base_url c @ ''/volumes''
      \<and> req_json q = Some [(''pool'', opt_scalar (qsan_pool_name conf)),
                           (''name'', PStr (''volume-'' @ vol_id v)),
                           (''size'', PInt (vol_size v * 2 ^ 30)),
                           (''thin_provision'', PBool (qsan_thin_provision conf))])
   \<and> (\<forall>q \<in> set (sent_requests (new_events s (snd (driver_extend_volume srv c s v size_gb)))).
      req_method q = ''PUT'' \<and> req_url q = base_url c @ ''/volumes/volume-'' @ vol_id v
      \<and> req_json q = Some [(''size'', PInt (size_gb * 2 ^ 30))])
   \<and> (\<forall>vf st reason content.
        session s = Some vf \<and> 1 \<le> retry_count c
        \<and> srv (count_sent (trace s))
             (build_request c s ''POST'' (base_url c @ ''/volumes'')
                (Some [(''pool'', opt_scalar (qsan_pool_name conf)),
                       (''name'', PStr (''volume-'' @ vol_id v)),
                       (''size'', PInt (vol_size v * 2 ^ 30)),
                       (''thin_provision'', PBool (qsan_thin_provision conf))]) None)
            = Response st reason content
        \<and> (st < 400 \<or> 600 \<le> st) \<longrightarrow>
        fst (driver_create_volume srv c conf s v) = Inr ()
        \<and> length (sent_requests (new_events s (snd (driver_create_volume srv c conf s v)))) = 1)
   \<and> (\<forall>vf st reason content.
        session s = Some vf \<and> 1 \<le> retry_count c
        \<and> srv (count_sent (trace s))
             (build_request c s ''PUT'' (base_url c @ ''/volumes/'' @ volume_name)
                (Some [(''size'', PInt (size_gb * 2 ^ 30))]) None)
            = Response st reason content
        \<and> (st < 400 \<or> 600 \<le> st) \<longrightarrow>
        client_extend_volume srv c s volume_name size_gb
          = (Inr (case content of None \<Rightarrow> Scalar PNone | Some x \<Rightarrow> x),
             s\<lparr>trace := trace s @ [Sent
               (build_request c s ''PUT'' (base_url c @ ''/volumes/'' @ volume_name)
                (Some [(''size'', PInt (size_gb * 2 ^ 30))]) None)]\<rparr>))
   \<and> (\<forall>vf st reason content.
        session s = Some vf \<and> 1 \<le> retry_count c
        \<and> srv (count_sent (trace s))
             (build_request c s ''PUT'' (base_url c @ ''/volumes/'' @ ''volume-'' @ vol_id v)
                (Some [(''size'', PInt (size_gb * 2 ^ 30))]) None)
            = Response st reason content
        \<and> (st < 400 \<or> 600 \<le> st) \<longrightarrow>
        driver_extend_volume srv c s v size_gb
          = (Inr (),
             s\<lparr>trace := trace s @ [Sent
               (build_request c s ''PUT'' (base_url c @ ''/volumes/'' @ ''volume-'' @ vol_id v)
                (Some [(''size'', PInt (size_gb * 2 ^ 30))]) None)]\<rparr>))
   \<and> (\<forall>vf st reason content.
        session s = Some vf \<and> 1 \<le> retry_count c
        \<and> srv (count_sent (trace s))
             (build_request c s ''POST'' (base_url c @ ''/volumes'')
                (Some [(''pool'', pool), (''name'', PStr volume_name),
                       (''size'', PInt (size_gb * 2 ^ 30)), (''thin_provision'', PBool thin)])
                None)
            = Response st reason content
        \<and> (st < 400 \<or> 600 \<le> st) \<longrightarrow>
        client_create_volume srv c s pool volume_name size_gb thin
          = (Inr (case content of None \<Rightarrow> Scalar PNone | Some x \<Rightarrow> x),
             s\<lparr>trace := trace s @ [Sent
               (build_request c s ''POST'' (base_url c @ ''/volumes'')
                (Some [(''pool'', pool), (''name'', PStr volume_name),
                       (''size'', PInt (size_gb * 2 ^ 30)), (''thin_provision'', PBool thin)])
                None)]\<rparr>))
   \<and> (session s \<noteq> None \<and> 1 \<le> retry_count c \<longrightarrow>
        (build_request c s ''PUT'' (base_url c @ ''/volumes/'' @ volume_name)
                (Some [(''size'', PInt (size_gb * 2 ^ 30))]) None)
          \<in> set (sent_requests (new_events s
                (snd (client_extend_volume srv c s volume_name size_gb))))
        \<and> (build_request c s ''PUT'' (base_url c @ ''/volumes/'' @ ''volume-'' @ vol_id v)
                (Some [(''size'', PInt (size_gb * 2 ^ 30))]) None)
          \<in> set (sent_requests (new_events s (snd (driver_extend_volume srv c s v size_gb))))
        \<and> (build_request c s ''POST'' (base_url c @ ''/volumes'')
                (Some [(''pool'', pool), (''name'', PStr volume_name),
                       (''size'', PInt (size_gb * 2 ^ 30)), (''thin_provision'', PBool thin)])
                None)
          \<in> set (sent_requests (new_events s
                (snd (client_create_volume srv c s pool volume_name size_gb thin))))
        \<and> (build_request c s ''POST'' (base_url c @ ''/volumes'')
                (Some [(''pool'', opt_scalar (qsan_pool_name conf)),
                       (''name'', PStr (''volume-'' @ vol_id v)),
                       (''size'', PInt (vol_size v * 2 ^ 30)),
                       (''thin_provision'', PBool (qsan_thin_provision conf))]) None)
          \<in> set (sent_requests (new_events s (snd (driver_create_volume srv c conf s v)))))"
proof -
  have gi: "Gi = 2 ^ 30" by (simp add: Gi_def)
  have A: "\<forall>q \<in> set (sent_requests (new_events s
         (snd (client_create_volume srv c s pool volume_name size_gb thin)))).
      req_method q = ''POST'' \<and> req_url q = base_url c @ ''/volumes''
      \<and> req_json q = Some [(''pool'', pool), (''name'', PStr volume_name),
                           (''size'', PInt (size_gb * 2 ^ 30)), (''thin_provision'', PBool thin)]"
    for pool volume_name thin size_gb
    using client_request_sent [of s srv c "''POST''" "base_url c @ ''/volumes''"
        "Some [(''pool'', pool), (''name'', PStr volume_name),
               (''size'', PInt (size_gb * Gi)), (''thin_provision'', PBool thin)]" None]
    unfolding client_create_volume_def gi by auto
  have B: "\<forall>q \<in> set (sent_requests (new_events s
         (snd (client_extend_volume srv c s volume_name size_gb)))).
      req_method q = ''PUT'' \<and> req_url q = base_url c @ ''/volumes/'' @ volume_name
      \<and> req_json q = Some [(''size'', PInt (size_gb * 2 ^ 30))]"
    for volume_name size_gb
    using client_request_sent [of s srv c "''PUT''" "base_url c @ ''/volumes/'' @ volume_name"
        "Some [(''size'', PInt (size_gb * Gi))]" None]
    unfolding client_extend_volume_def gi by auto
  have sc: "snd (driver_create_volume srv c conf s v)
      = snd (client_create_volume srv c s (opt_scalar (qsan_pool_name conf)) (get_volume_name v)
               (vol_size v) (qsan_thin_provision conf))"
    by (simp add: driver_create_volume_def split: prod.splits sum.splits)
  have se: "snd (driver_extend_volume srv c s v size_gb)
      = snd (client_extend_volume srv c s (get_volume_name v) size_gb)"
    by (simp add: driver_extend_volume_def split: prod.splits sum.splits)
  have C: "\<forall>q \<in> set (sent_requests (new_events s (snd (driver_create_volume srv c conf s v)))).
      req_method q = ''POST'' \<and> req_url q = base_url c @ ''/volumes''
      \<and> req_json q = Some [(''pool'', opt_scalar (qsan_pool_name conf)),
                           (''name'', PStr (''volume-'' @ vol_id v)),
                           (''size'', PInt (vol_size v * 2 ^ 30)),
                           (''thin_provision'', PBool (qsan_thin_provision conf))]"
    unfolding sc using A [of "opt_scalar (qsan_pool_name conf)" "get_volume_name v"
        "vol_size v" "qsan_thin_provision conf"]
    by (simp add: get_volume_name_def)
  have D: "\<forall>q \<in> set (sent_requests (new_events s (snd (driver_extend_volume srv c s v size_gb)))).
      req_method q = ''PUT'' \<and> req_url q = base_url c @ ''/volumes/volume-'' @ vol_id v
      \<and> req_json q = Some [(''size'', PInt (size_gb * 2 ^ 30))]"
    unfolding se using B [of "get_volume_name v" size_gb]
    by (simp add: get_volume_name_def)
  have E: "fst (driver_create_volume srv c conf s v) = Inr ()
        \<and> length (sent_requests (new_events s (snd (driver_create_volume srv c conf s v)))) = 1"
    if "session s = Some vf" and "1 \<le> retry_count c"
      and "srv (count_sent (trace s))
             (build_request c s ''POST'' (base_url c @ ''/volumes'')
                (Some [(''pool'', opt_scalar (qsan_pool_name conf)),
                       (''name'', PStr (''volume-'' @ vol_id v)),
                       (''size'', PInt (vol_size v * 2 ^ 30)),
                       (''thin_provision'', PBool (qsan_thin_provision conf))]) None)
            = Response st reason content"
      and "st < 400 \<or> 600 \<le> st"
    for vf st reason content
    using client_request_first_ok [where srv = srv, OF that]
    by (simp add: driver_create_volume_def client_create_volume_def gi get_volume_name_def
        wrap_api_error_def)
  have F: "client_extend_volume srv c s volume_name size_gb
          = (Inr (case content of None \<Rightarrow> Scalar PNone | Some x \<Rightarrow> x),
             s\<lparr>trace := trace s @ [Sent
               (build_request c s ''PUT'' (base_url c @ ''/volumes/'' @ volume_name)
                (Some [(''size'', PInt (size_gb * 2 ^ 30))]) None)]\<rparr>)"
    if "session s = Some vf" and "1 \<le> retry_count c"
      and "srv (count_sent (trace s))
             (build_request c s ''PUT'' (base_url c @ ''/volumes/'' @ volume_name)
                (Some [(''size'', PInt (size_gb * 2 ^ 30))]) None)
            = Response st reason content"
      and "st < 400 \<or> 600 \<le> st"
    for vf st reason content
    using client_request_first_ok [where srv = srv, OF that]
    by (simp add: client_extend_volume_def gi)
  have G: "driver_extend_volume srv c s v size_gb
          = (Inr (),
             s\<lparr>trace := trace s @ [Sent
               (build_request c s ''PUT'' (base_url c @ ''/volumes/'' @ ''volume-'' @ vol_id v)
                (Some [(''size'', PInt (size_gb * 2 ^ 30))]) None)]\<rparr>)"
    if "session s = Some vf" and "1 \<le> retry_count c"
      and "srv (count_sent (trace s))
             (build_request c s ''PUT'' (base_url c @ ''/volumes/'' @ ''volume-'' @ vol_id v)
                (Some [(''size'', PInt (size_gb * 2 ^ 30))]) None)
            = Response st reason content"
      and "st < 400 \<or> 600 \<le> st"
    for vf st reason content
    using client_request_first_ok [where srv = srv, OF that]
    by (simp add: driver_extend_volume_def client_extend_volume_def gi get_volume_name_def
        wrap_api_error_def)
  have H: "client_create_volume srv c s pool volume_name size_gb thin
          = (Inr (case content of None \<Rightarrow> Scalar PNone | Some x \<Rightarrow> x),
             s\<lparr>trace := trace s @ [Sent
               (build_request c s ''POST'' (base_url c @ ''/volumes'')
                (Some [(''pool'', pool), (''name'', PStr volume_name),
                       (''size'', PInt (size_gb * 2 ^ 30)), (''thin_provision'', PBool thin)])
                None)]\<rparr>)"
    if "session s = Some vf" and "1 \<le> retry_count c"
      and "srv (count_sent (trace s))
             (build_request c s ''POST'' (base_url c @ ''/volumes'')
                (Some [(''pool'', pool), (''name'', PStr volume_name),
                       (''size'', PInt (size_gb * 2 ^ 30)), (''thin_provision'', PBool thin)])
                None)
            = Response st reason content"
      and "st < 400 \<or> 600 \<le> st"
    for vf st reason content
    using client_request_first_ok [where srv = srv, OF that]
    by (simp add: client_create_volume_def gi)
  have I: "(build_request c s ''PUT'' (base_url c @ ''/volumes/'' @ volume_name)
                (Some [(''size'', PInt (size_gb * 2 ^ 30))]) None)
          \<in> set (sent_requests (new_events s
                (snd (client_extend_volume srv c s volume_name size_gb))))
        \<and> (build_request c s ''PUT'' (base_url c @ ''/volumes/'' @ ''volume-'' @ vol_id v)
                (Some [(''size'', PInt (size_gb * 2 ^ 30))]) None)
          \<in> set (sent_requests (new_events s (snd (driver_extend_volume srv c s v size_gb))))
        \<and> (build_request c s ''POST'' (base_url c @ ''/volumes'')
                (Some [(''pool'', pool), (''name'', PStr volume_name),
                       (''size'', PInt (size_gb * 2 ^ 30)), (''thin_provision'', PBool thin)])
                None)
          \<in> set (sent_requests (new_events s
                (snd (client_create_volume srv c s pool volume_name size_gb thin))))
        \<and> (build_request c s ''POST'' (base_url c @ ''/volumes'')
                (Some [(''pool'', opt_scalar (qsan_pool_name conf)),
                       (''name'', PStr (''volume-'' @ vol_id v)),
                       (''size'', PInt (vol_size v * 2 ^ 30)),
                       (''thin_provision'', PBool (qsan_thin_provision conf))]) None)
          \<in> set (sent_requests (new_events s (snd (driver_create_volume srv c conf s v))))"
    if o: "session s \<noteq> None" "1 \<le> retry_count c"
    unfolding sc se client_create_volume_def client_extend_volume_def gi get_volume_name_def
    using client_request_sends_first [OF o, where srv = srv] by simp
  show ?thesis
    using A [of pool volume_name size_gb thin] B [of volume_name size_gb] C D E F G H I
    by blast
qed

theorem volume_size_in_bytes_witness:
  "session demo_state = Some False \<and> 1 \<le> retry_count demo_client
   \<and> vol_size demo_volume = 10 \<and> qsan_thin_provision demo_configuration = True
   \<and> fst (driver_create_volume srv_ok_empty demo_client demo_configuration demo_state
          demo_volume) = Inr ()
   \<and> sent_requests (new_events demo_state
         (snd (driver_create_volume srv_ok_empty demo_client demo_configuration demo_state
                 demo_volume)))
       = [build_request demo_client demo_state ''POST'' ''https://192.168.1.100:443/api/volumes''
            (Some [(''pool'', PStr ''Pool-1''), (''name'', PStr ''volume-fake-volume-id''),
                   (''size'', PInt 10737418240), (''thin_provision'', PBool True)]) None]
   \<and> req_json (build_request demo_client demo_state ''POST''
         ''https://192.168.1.100:443/api/volumes''
         (Some [(''pool'', PStr ''Pool-1''), (''name'', PStr ''volume-fake-volume-id''),
                (''size'', PInt 10737418240), (''thin_provision'', PBool True)]) None)
       = Some [(''pool'', PStr ''Pool-1''), (''name'', PStr ''volume-fake-volume-id''),
               (''size'', PInt (10 * 2 ^ 30)), (''thin_provision'', PBool True)]
   \<and> srv_ok_empty 0 (build_request demo_client demo_state ''PUT''
            ''https://192.168.1.100:443/api/volumes/volume-fake-volume-id''
            (Some [(''size'', PInt 21474836480)]) None) = Response 200 ''OK'' None
   \<and> driver_extend_volume srv_ok_empty demo_client demo_state demo_volume 20
       = (Inr (), demo_state\<lparr>trace := trace demo_state @ [Sent
           (build_request demo_client demo_state ''PUT''
            ''https://192.168.1.100:443/api/volumes/volume-fake-volume-id''
            (Some [(''size'', PInt 21474836480)]) None)]\<rparr>)
   \<and> client_extend_volume srv_ok_empty demo_client demo_state ''volume-fake-volume-id'' 20
       = (Inr (Scalar PNone), demo_state\<lparr>trace := trace demo_state @ [Sent
           (build_request demo_client demo_state ''PUT''
            ''https://192.168.1.100:443/api/volumes/volume-fake-volume-id''
            (Some [(''size'', PInt 21474836480)]) None)]\<rparr>)
   \<and> session demo_state \<noteq> None
   \<and> (build_request demo_client demo_state ''PUT''
            ''https://192.168.1.100:443/api/volumes/volume-fake-volume-id''
            (Some [(''size'', PInt 21474836480)]) None)
       \<in> set (sent_requests (new_events demo_state
             (snd (driver_extend_volume srv_down demo_client demo_state demo_volume 20))))"
proof -
  let ?q = "build_request demo_client demo_state ''POST'' ''https://192.168.1.100:443/api/volumes''
            (Some [(''pool'', PStr ''Pool-1''), (''name'', PStr ''volume-fake-volume-id''),
                   (''size'', PInt 10737418240), (''thin_provision'', PBool True)]) None"
  let ?s' = "snd (driver_create_volume srv_ok_empty demo_client demo_configuration demo_state
                 demo_volume)"
  have h: "session demo_state = Some False" "1 \<le> retry_count demo_client"
    "vol_size demo_volume = 10" "qsan_thin_provision demo_configuration = True"
    by (simp_all add: demo_state_def demo_client_def demo_volume_def demo_configuration_def)
  have L: "sent_requests (new_events demo_state ?s') = [?q]"
    by code_simp
  note T = volume_size_in_bytes [where srv = srv_ok_empty and c = demo_client
      and conf = demo_configuration and s = demo_state and v = demo_volume
      and pool = PNone and volume_name = "[]" and size_gb = 0 and thin = False]
  from T have "\<forall>q \<in> set (sent_requests (new_events demo_state ?s')).
      req_json q = Some [(''pool'', opt_scalar (qsan_pool_name demo_configuration)),
                         (''name'', PStr (''volume-'' @ vol_id demo_volume)),
                         (''size'', PInt (vol_size demo_volume * 2 ^ 30)),
                         (''thin_provision'', PBool (qsan_thin_provision demo_configuration))]"
    by blast
  with L have "req_json ?q
      = Some [(''pool'', opt_scalar (qsan_pool_name demo_configuration)),
              (''name'', PStr (''volume-'' @ vol_id demo_volume)),
              (''size'', PInt (vol_size demo_volume * 2 ^ 30)),
              (''thin_provision'', PBool (qsan_thin_provision demo_configuration))]"
    by simp
  then have J: "req_json ?q
      = Some [(''pool'', PStr ''Pool-1''), (''name'', PStr ''volume-fake-volume-id''),
               (''size'', PInt (10 * 2 ^ 30)), (''thin_provision'', PBool True)]"
    by (simp add: demo_configuration_def demo_volume_def opt_scalar_def)
  have ok: "srv_ok_empty (count_sent (trace demo_state))
             (build_request demo_client demo_state ''POST'' (base_url demo_client @ ''/volumes'')
                (Some [(''pool'', opt_scalar (qsan_pool_name demo_configuration)),
                       (''name'', PStr (''volume-'' @ vol_id demo_volume)),
                       (''size'', PInt (vol_size demo_volume * 2 ^ 30)),
                       (''thin_provision'', PBool (qsan_thin_provision demo_configuration))]) None)
            = Response 200 ''OK'' None"
    by (simp add: srv_ok_empty_def)
  have st: "(200::nat) < 400 \<or> (600::nat) \<le> 200" by simp
  from T h(1,2) ok st
  have F: "fst (driver_create_volume srv_ok_empty demo_client demo_configuration demo_state
          demo_volume) = Inr ()"
    by blast
  let ?qe = "(build_request demo_client demo_state ''PUT''
            ''https://192.168.1.100:443/api/volumes/volume-fake-volume-id''
            (Some [(''size'', PInt 21474836480)]) None)"
  have qe: "build_request demo_client demo_state ''PUT''
        (base_url demo_client @ ''/volumes/'' @ ''volume-'' @ vol_id demo_volume)
        (Some [(''size'', PInt (20 * 2 ^ 30))]) None = ?qe"
    by code_simp
  have qe': "build_request demo_client demo_state ''PUT''
        (base_url demo_client @ ''/volumes/'' @ ''volume-fake-volume-id'')
        (Some [(''size'', PInt (20 * 2 ^ 30))]) None = ?qe"
    by code_simp
  have ok0: "srv_ok_empty 0 ?qe = Response 200 ''OK'' None" by (simp add: srv_ok_empty_def)
  have n0: "count_sent (trace demo_state) = 0" by (simp add: demo_state_def)
  note X = volume_size_in_bytes [where srv = srv_ok_empty and c = demo_client
      and conf = demo_configuration and s = demo_state and v = demo_volume and size_gb = 20
      and volume_name = "''volume-fake-volume-id''" and pool = PNone and thin = False,
      unfolded qe qe' n0]
  from X h(1,2) ok0 st
  have E1: "driver_extend_volume srv_ok_empty demo_client demo_state demo_volume 20
       = (Inr (), demo_state\<lparr>trace := trace demo_state @ [Sent ?qe]\<rparr>)"
    by blast
  from X h(1,2) ok0 st
  have E2: "client_extend_volume srv_ok_empty demo_client demo_state ''volume-fake-volume-id'' 20
       = (Inr (case None of None \<Rightarrow> Scalar PNone | Some x \<Rightarrow> x),
          demo_state\<lparr>trace := trace demo_state @ [Sent ?qe]\<rparr>)"
    by blast
  then have E2': "client_extend_volume srv_ok_empty demo_client demo_state
        ''volume-fake-volume-id'' 20
       = (Inr (Scalar PNone), demo_state\<lparr>trace := trace demo_state @ [Sent ?qe]\<rparr>)"
    by simp
  have op: "session demo_state \<noteq> None" by (simp add: demo_state_def)
  note Y = volume_size_in_bytes [where srv = srv_down and c = demo_client
      and conf = demo_configuration and s = demo_state and v = demo_volume and size_gb = 20
      and volume_name = "[]" and pool = PNone and thin = False, unfolded qe]
  from Y op h(2)
  have E3: "?qe \<in> set (sent_requests (new_events demo_state
             (snd (driver_extend_volume srv_down demo_client demo_state demo_volume 20))))"
    by blast
  from h F L J ok0 E1 E2' op E3 show ?thesis by blast
qed

end
